theory Spec2Isabelle
  imports Complex_Main "HOL-Library.Sublist" "HOL-Library.Char_ord" "HOL-Library.List_Lexorder" "HOL-Library.Log_Nat"
begin

section \<open>Python strings\<close>

text \<open>
  A Python \<open>str\<close> is a sequence of code points. The model uses \<open>string\<close>, whose
  characters are the code points 0 to 255; every keyword of the program is ASCII.
  On these code points \<open>str.lower\<close> adds 32 to \<open>A\<close>..\<open>Z\<close> (65..90) and to the
  Latin-1 capitals 192..222 other than the multiplication sign 215, and leaves every
  other character alone.
\<close>

definition lower_char :: "char \<Rightarrow> char" where
  "lower_char c =
     (let n = (of_char c :: nat)
      in if (65 \<le> n \<and> n \<le> 90) \<or> (192 \<le> n \<and> n \<le> 222 \<and> n \<noteq> 215)
         then char_of (n + 32) else c)"

definition lower :: "string \<Rightarrow> string" where
  "lower s = map lower_char s"

text \<open>\<open>s.startswith(k)\<close> and the substring test \<open>k in s\<close>.\<close>

fun startswith :: "string \<Rightarrow> string \<Rightarrow> bool" where
  "startswith s [] = True"
| "startswith [] (k # ks) = False"
| "startswith (c # s) (k # ks) = (c = k \<and> startswith s ks)"

fun str_in :: "string \<Rightarrow> string \<Rightarrow> bool" where
  "str_in k [] = (k = [])"
| "str_in k (c # s) = (startswith (c # s) k \<or> str_in k s)"

text \<open>\<open>any(keyword in s for keyword in keywords)\<close>.\<close>

definition any_in :: "string list \<Rightarrow> string \<Rightarrow> bool" where
  "any_in keywords s = list_ex (\<lambda>keyword. str_in keyword s) keywords"

text \<open>
  The reading of "the prompt contains the keyword, case-insensitively" used in the
  statements below: some piece of the prompt is the keyword once lower-cased.
\<close>

definition mentions :: "string \<Rightarrow> string \<Rightarrow> bool" where
  "mentions prompt kw = (\<exists>us w vs. prompt = us @ w @ vs \<and> lower w = kw)"

section \<open>Scene type and colour (test\_app.py, \<open>create_ai_image\<close>)\<close>

datatype scene_type = Dragon | Robot | City | Space | Landscape

definition dragon_keywords :: "string list" where
  "dragon_keywords = [''dragon'', ''drake'', ''wyvern'', ''serpent'']"

definition robot_keywords :: "string list" where
  "robot_keywords = [''robot'', ''mech'', ''android'', ''machine'']"

definition city_keywords :: "string list" where
  "city_keywords = [''city'', ''urban'', ''metropolis'', ''building'']"

definition space_keywords :: "string list" where
  "space_keywords = [''space'', ''galaxy'', ''planet'', ''star'']"

definition category_keywords :: "string list" where
  "category_keywords = dragon_keywords @ robot_keywords @ city_keywords @ space_keywords"

definition image_type :: "string \<Rightarrow> scene_type" where
  "image_type prompt =
     (let prompt_lower = lower prompt
      in if any_in dragon_keywords prompt_lower then Dragon
         else if any_in robot_keywords prompt_lower then Robot
         else if any_in city_keywords prompt_lower then City
         else if any_in space_keywords prompt_lower then Space
         else Landscape)"

type_synonym rgb = "int \<times> int \<times> int"

definition main_color :: "string \<Rightarrow> rgb" where
  "main_color prompt =
     (let prompt_lower = lower prompt
      in if str_in ''green'' prompt_lower \<or> str_in ''emerald'' prompt_lower
           then (30, 150, 30)
         else if str_in ''blue'' prompt_lower \<or> str_in ''sapphire'' prompt_lower
                 \<or> str_in ''ice'' prompt_lower
           then (30, 30, 180)
         else if str_in ''gold'' prompt_lower \<or> str_in ''yellow'' prompt_lower
           then (200, 180, 30)
         else if str_in ''black'' prompt_lower \<or> str_in ''dark'' prompt_lower
           then (20, 20, 20)
         else if str_in ''white'' prompt_lower \<or> str_in ''silver'' prompt_lower
           then (200, 200, 220)
         else if str_in ''purple'' prompt_lower \<or> str_in ''violet'' prompt_lower
                 \<or> str_in ''amethyst'' prompt_lower
           then (120, 30, 160)
         else if str_in ''orange'' prompt_lower \<or> str_in ''amber'' prompt_lower
           then (220, 120, 30)
         else if str_in ''pink'' prompt_lower \<or> str_in ''rose'' prompt_lower
           then (220, 120, 180)
         else (180, 30, 30))"

text \<open>The colour names of the table above, in its order.\<close>

definition main_color_names :: "string list" where
  "main_color_names =
     [''green'', ''emerald'', ''blue'', ''sapphire'', ''ice'', ''gold'', ''yellow'',
      ''black'', ''dark'', ''white'', ''silver'', ''purple'', ''violet'', ''amethyst'',
      ''orange'', ''amber'', ''pink'', ''rose'']"

section \<open>Colour of the dragon (main.py, \<open>create_dragon_forest_image\<close>)\<close>

definition dragon_color :: "string \<Rightarrow> rgb" where
  "dragon_color prompt =
     (if str_in ''green'' (lower prompt) \<or> str_in ''emerald'' (lower prompt)
        then (30, 150, 30)
      else if str_in ''blue'' (lower prompt) \<or> str_in ''ice'' (lower prompt)
        then (30, 30, 180)
      else if str_in ''gold'' (lower prompt) \<or> str_in ''yellow'' (lower prompt)
        then (200, 180, 30)
      else if str_in ''black'' (lower prompt) \<or> str_in ''dark'' (lower prompt)
        then (20, 20, 20)
      else if str_in ''white'' (lower prompt) \<or> str_in ''silver'' (lower prompt)
        then (200, 200, 220)
      else (180, 30, 30))"

definition dragon_color_names :: "string list" where
  "dragon_color_names =
     [''green'', ''emerald'', ''blue'', ''ice'', ''gold'', ''yellow'', ''black'', ''dark'',
      ''white'', ''silver'']"

section \<open>The mesh payload\<close>

text \<open>
  \<open>str.split(sep)\<close> for a separator of one character.
\<close>

fun split_on :: "char \<Rightarrow> string \<Rightarrow> string list" where
  "split_on sep [] = [[]]"
| "split_on sep (c # s) =
     (if c = sep then [] # split_on sep s
      else (case split_on sep s of w # ws \<Rightarrow> (c # w) # ws | [] \<Rightarrow> [[c]]))"

definition nl :: char where
  "nl = CHR 0x0A"

text \<open>
  The literal that \<open>generate\<close> of test\_app.py writes to the model file: it starts at
  the comment and has no newline after the last face.
\<close>

definition cube_obj_text :: string where
  "cube_obj_text =
     ''# Simple cube OBJ file'' @ nl #
     ''v -1.0 -1.0 -1.0'' @ nl #
     ''v -1.0 -1.0 1.0'' @ nl #
     ''v -1.0 1.0 -1.0'' @ nl #
     ''v -1.0 1.0 1.0'' @ nl #
     ''v 1.0 -1.0 -1.0'' @ nl #
     ''v 1.0 -1.0 1.0'' @ nl #
     ''v 1.0 1.0 -1.0'' @ nl #
     ''v 1.0 1.0 1.0'' @ nl #
     ''f 1 3 7 5'' @ nl #
     ''f 2 6 8 4'' @ nl #
     ''f 1 5 6 2'' @ nl #
     ''f 3 4 8 7'' @ nl #
     ''f 1 2 4 3'' @ nl #
     ''f 5 7 8 6''"

text \<open>
  The literal \<open>obj_data\<close> of \<open>generate_image_to_3d\<close> in main.py: the triple-quoted
  string opens with a newline and closes after one.
\<close>

definition obj_data :: string where
  "obj_data =
     nl #
     ''# Simple cube OBJ file'' @ nl #
     ''v -1.0 -1.0 -1.0'' @ nl #
     ''v -1.0 -1.0 1.0'' @ nl #
     ''v -1.0 1.0 -1.0'' @ nl #
     ''v -1.0 1.0 1.0'' @ nl #
     ''v 1.0 -1.0 -1.0'' @ nl #
     ''v 1.0 -1.0 1.0'' @ nl #
     ''v 1.0 1.0 -1.0'' @ nl #
     ''v 1.0 1.0 1.0'' @ nl #
     ''f 1 3 7 5'' @ nl #
     ''f 2 6 8 4'' @ nl #
     ''f 1 5 6 2'' @ nl #
     ''f 3 4 8 7'' @ nl #
     ''f 1 2 4 3'' @ nl #
     ''f 5 7 8 6'' @ [nl]"

text \<open>
  \<open>generate_image_to_3d(stub, image_data, uid)\<close> reads none of its arguments; nothing
  in its \<open>try\<close> block raises, so the \<open>None\<close> of the handler is never returned. The
  bytes are the UTF-8 encoding of the ASCII text, one byte per character.
\<close>

definition generate_image_to_3d :: "'stub \<Rightarrow> 'image \<Rightarrow> string \<Rightarrow> string option" where
  "generate_image_to_3d stub image_data uid = Some obj_data"

text \<open>
  What the payload describes: vertex and face lines of the OBJ format, the eight
  corners and the six faces. Face indices count the vertex lines from 1.
\<close>

type_synonym point = "int \<times> int \<times> int"

definition show_coord :: "int \<Rightarrow> string" where
  "show_coord c = (if c < 0 then ''-1.0'' else ''1.0'')"

definition vertex_line :: "point \<Rightarrow> string" where
  "vertex_line p = (case p of (x, y, z) \<Rightarrow>
     ''v '' @ show_coord x @ '' '' @ show_coord y @ '' '' @ show_coord z)"

definition face_line :: "nat list \<Rightarrow> string" where
  "face_line f = ''f'' @ concat (map (\<lambda>i. [CHR '' '', char_of (48 + i)]) f)"

definition cube_vertices :: "point list" where
  "cube_vertices =
     [(-1, -1, -1), (-1, -1, 1), (-1, 1, -1), (-1, 1, 1),
      (1, -1, -1), (1, -1, 1), (1, 1, -1), (1, 1, 1)]"

definition cube_faces :: "nat list list" where
  "cube_faces = [[1, 3, 7, 5], [2, 6, 8, 4], [1, 5, 6, 2], [3, 4, 8, 7], [1, 2, 4, 3], [5, 7, 8, 6]]"

definition vertex :: "nat \<Rightarrow> point" where
  "vertex i = cube_vertices ! (i - 1)"

definition dist2 :: "point \<Rightarrow> point \<Rightarrow> int" where
  "dist2 p q = (case p of (x, y, z) \<Rightarrow> case q of (x', y', z') \<Rightarrow>
     (x - x') * (x - x') + (y - y') * (y - y') + (z - z') * (z - z'))"

text \<open>
  A face of an axis-aligned cube of edge length \<open>e\<close>: four different vertices out of
  the eight, lying in one coordinate plane, each at distance \<open>e\<close> from the next one
  around the face.
\<close>

definition in_plane :: "nat list \<Rightarrow> bool" where
  "in_plane f =
     (list_all (\<lambda>i. fst (vertex i) = fst (vertex (hd f))) f \<or>
      list_all (\<lambda>i. fst (snd (vertex i)) = fst (snd (vertex (hd f)))) f \<or>
      list_all (\<lambda>i. snd (snd (vertex i)) = snd (snd (vertex (hd f)))) f)"

definition cube_face :: "int \<Rightarrow> nat list \<Rightarrow> bool" where
  "cube_face e f =
     (length f = 4 \<and> distinct f \<and> list_all (\<lambda>i. 1 \<le> i \<and> i \<le> 8) f \<and> in_plane f \<and>
      list_all (\<lambda>ij. dist2 (vertex (fst ij)) (vertex (snd ij)) = e * e) (zip f (rotate1 f)))"

section \<open>Exceptions\<close>

text \<open>
  The exceptions the program meets: \<open>sqlite3.OperationalError\<close> from a failing
  statement; \<open>AttributeError\<close>, \<open>TypeError\<close> and \<open>KeyError\<close> from an operation on a
  value that does not support it; and the two exceptions of werkzeug with which Flask
  refuses a request body that is not JSON.
\<close>

datatype exn =
    OperationalError | AttributeError | TypeError | KeyError | BadRequest | UnsupportedMediaType

section \<open>Random numbers and drawings\<close>

text \<open>
  Both renderers call Python's \<open>random\<close> module, which the program never seeds. The
  model reads the outcome of every call from the state of the generator: the outcomes of
  the coming integer calls (\<open>random.randint\<close>) and of the coming float calls
  (\<open>random.random\<close>, \<open>random.uniform\<close>), in call order, and the number of outcomes
  of either kind handed out so far. A call returns the next outcome and moves on. The
  bounds of a call restrict which outcomes can occur; the model does not compute them.
  A float outcome is a rational number, as every float is; no float lies between the
  float \<open>0.3\<close> and the number 3/10, so comparing an outcome with 3/10 is comparing it
  with the float.
\<close>

record rng =
  ints :: "nat \<Rightarrow> int"
  floats :: "nat \<Rightarrow> rat"
  ints_taken :: nat
  floats_taken :: nat

text \<open>The generator after \<open>n\<close> integer and \<open>m\<close> float outcomes have been taken.\<close>

definition skip :: "nat \<Rightarrow> nat \<Rightarrow> rng \<Rightarrow> rng" where
  "skip n m g =
     g\<lparr>ints := (\<lambda>k. ints g (n + k)), floats := (\<lambda>k. floats g (m + k)),
       ints_taken := ints_taken g + n, floats_taken := floats_taken g + m\<rparr>"

definition randint :: "rng \<Rightarrow> int \<times> rng" where
  "randint g = (ints g 0, skip 1 0 g)"

definition randints :: "nat \<Rightarrow> rng \<Rightarrow> int list \<times> rng" where
  "randints n g = (map (ints g) [0..<n], skip n 0 g)"

definition random_random :: "rng \<Rightarrow> rat \<times> rng" where
  "random_random g = (floats g 0, skip 0 1 g)"

definition uniforms :: "nat \<Rightarrow> rng \<Rightarrow> rat list \<times> rng" where
  "uniforms n g = (map (floats g) [0..<n], skip 0 n g)"


text \<open>
  An image is the list of the calls made on the \<open>ImageDraw\<close> object, in order. A call
  records its shape, the element of the picture it paints, its fill colour where the
  source computes one in integers, and the integer arguments and random integers that
  enter it. Coordinates and colours that the source computes in floating point are not
  recorded, nor is the way the imaging library rasterises a call.
\<close>

datatype shape = Line | Polygon | Ellipse | Rectangle | Arc

datatype sky_tone = SpaceSky | CitySky | StandardSky

datatype element =
    Sky sky_tone | Mountain | TreeTrunk | TreeFoliage | Sparkle | Mist
  | DragonHead | Snout | DragonBody | SpineScale | LeftWing | LeftWingBone
  | RightWing | RightWingBone | DragonEye | Horn | Nostril
  | Star | Planet | PlanetRing
  | Building | Window | Road | RoadMarking | CarLight
  | RobotHead | RobotEye | RobotBody | RobotArm | RobotLeg | TechDetail
  | CaptionBar

datatype drawing =
    Draw shape element "rgb option" "int list"
  | FlameLayer nat rgb rat "rat list"
  | DrawText int int string rgb

text \<open>
  \<open>FlameLayer i color scale ys\<close> is the polygon of flame layer \<open>i\<close>: the twenty fire
  points, whose random offsets are \<open>ys\<close>, drawn towards their mean height by \<open>scale\<close>
  and filled with \<open>color\<close>. \<open>DrawText x y text fill\<close> is \<open>draw.text\<close>.
\<close>

text \<open>A \<open>for\<close> loop whose body draws and uses random numbers.\<close>

fun for_each :: "('a \<Rightarrow> rng \<Rightarrow> drawing list \<times> rng) \<Rightarrow> 'a list \<Rightarrow> rng \<Rightarrow> drawing list \<times> rng" where
  "for_each body [] g = ([], g)"
| "for_each body (i # rest) g =
     (let (ds, g) = body i g; (es, g) = for_each body rest g in (ds @ es, g))"

text \<open>
  \<open>range(start, stop, step)\<close>. A step of 0 raises in Python; the only computed step is
  the outcome of \<open>random.randint(10, 40)\<close>, which is never 0.
\<close>

definition range3 :: "int \<Rightarrow> int \<Rightarrow> int \<Rightarrow> int list" where
  "range3 start stop step =
     (if 0 < step
        then map (\<lambda>k. start + int k * step) [0..<nat ((stop - start + step - 1) div step)]
      else if step < 0
        then map (\<lambda>k. start + int k * step) [0..<nat ((start - stop - step - 1) div (- step))]
      else [])"

section \<open>Stages shared by the two renderers\<close>

text \<open>
  The image is 800 by 600, and the constants below are the values of the source's
  expressions in \<open>img_width\<close> and \<open>img_height\<close>. The bounds that the source passes
  to \<open>random.randint\<close>, \<open>int(img_height*0.2)\<close> and the like, are not kept: a call
  takes the next outcome of the generator.
\<close>

definition mountain :: "nat \<Rightarrow> rng \<Rightarrow> drawing list \<times> rng" where
  "mountain i g =
     (let (height, g) = randint g;
          (width, g) = randint g;
          (x, g) = randint g;
          y = 600 - height;
          (jitter, g) = randints (nat width) g;
          mountain_color = (40 + int i * 10, 50 + int i * 10, 60 + int i * 10)
      in ([Draw Polygon Mountain (Some mountain_color) ([x, y, width] @ jitter)], g))"

definition mountains :: "rng \<Rightarrow> drawing list \<times> rng" where
  "mountains g = for_each mountain [0..<5] g"

definition sparkle :: "rng \<Rightarrow> drawing list \<times> rng" where
  "sparkle g =
     (let (x, g) = randint g;
          (y, g) = randint g;
          (size, g) = randint g;
          (brightness, g) = randint g;
          (blue, g) = randint g
      in ([Draw Ellipse Sparkle (Some (brightness, brightness, blue))
             [x - size, y - size, x + size, y + size]], g))"

definition mist :: "rng \<Rightarrow> drawing list \<times> rng" where
  "mist g =
     (let (x, g) = randint g;
          (y, g) = randint g;
          (radius_x, g) = randint g;
          (radius_y, g) = randint g
      in for_each
           (\<lambda>r g. let (c1, g) = randint g; (c2, g) = randint g; (c3, g) = randint g
                   in ([Draw Ellipse Mist None [x, y, r, 100 + c1, 150 + c2, 150 + c3]], g))
           (range3 (max radius_x radius_y) 0 (- 5)) g)"

definition magical_effects :: "string \<Rightarrow> rng \<Rightarrow> drawing list \<times> rng" where
  "magical_effects prompt g =
     (if str_in ''magical'' (lower prompt) \<or> str_in ''magic'' (lower prompt)
      then (let (sparkles, g) = for_each (\<lambda>_. sparkle) [0..<200::nat] g;
                (mists, g) = for_each (\<lambda>_. mist) [0..<30::nat] g
            in (sparkles @ mists, g))
      else ([], g))"

definition flame_colors :: "rgb list" where
  "flame_colors = [(255, 255, 200), (255, 200, 50), (255, 150, 0), (255, 50, 0)]"

text \<open>
  Floating point. A float is kept as the rational number it is. The result of an
  operation on floats is the double nearest to the exact result, a tie going to the
  even mantissa: \<open>float_round\<close> gives it for a number in the range of the normal
  doubles, the only ones that occur here. A float literal is the double nearest to the
  decimal it is written as. \<open>binade x\<close> is the \<open>e\<close> with \<open>2 ^ e \<le> x < 2 ^ (e + 1)\<close>.
\<close>

definition round_half_even :: "rat \<Rightarrow> int" where
  "round_half_even x =
     (let n = \<lfloor>x\<rfloor>; r = x - of_int n
      in if r < 1 / 2 then n else if 1 / 2 < r then n + 1 else if even n then n else n + 1)"

definition pow2 :: "int \<Rightarrow> rat" where
  "pow2 e = (if 0 \<le> e then 2 ^ nat e else 1 / 2 ^ nat (- e))"

definition binade :: "rat \<Rightarrow> int" where
  "binade x = (if 1 \<le> x then bitlen \<lfloor>x\<rfloor> - 1 else - bitlen (\<lceil>1 / x\<rceil> - 1))"

definition float_round :: "rat \<Rightarrow> rat" where
  "float_round x =
     (if x = 0 then 0
      else (let ulp = pow2 (binade \<bar>x\<bar> - 52)
            in sgn x * of_int (round_half_even (\<bar>x\<bar> / ulp)) * ulp))"

text \<open>\<open>scale = 1 - (i * 0.2)\<close>, in floating point.\<close>

definition flame_scale :: "nat \<Rightarrow> rat" where
  "flame_scale i = float_round (1 - float_round (of_nat i * float_round (2 / 10)))"

definition flame_layers :: "rat list \<Rightarrow> drawing list" where
  "flame_layers ys = map (\<lambda>(i, color). FlameLayer i color (flame_scale i) ys) (enumerate 0 flame_colors)"

definition flame :: "rng \<Rightarrow> drawing list \<times> rng" where
  "flame g = (let (ys, g) = uniforms 20 g in (flame_layers ys, g))"

text \<open>
  \<open>if "fire" in prompt.lower() or random.random() > 0.5\<close>: Python's \<open>or\<close> draws the
  random number only when the prompt has no "fire".
\<close>

definition fire_breath :: "string \<Rightarrow> rng \<Rightarrow> drawing list \<times> rng" where
  "fire_breath prompt g =
     (if str_in ''fire'' (lower prompt) then flame g
      else (let (r, g) = random_random g in if r > 1 / 2 then flame g else ([], g)))"

section \<open>The renderer of test\_app.py: \<open>create_ai_image\<close>\<close>

definition sky :: "scene_type \<Rightarrow> drawing list" where
  "sky t =
     map (\<lambda>y. Draw Line
                (Sky (if t = Space then SpaceSky else if t = City then CitySky else StandardSky))
                None [0, int y, 800, int y])
       [0..<600]"

definition clamp255 :: "int \<Rightarrow> int" where
  "clamp255 v = max 0 (min 255 v)"

definition forest_tree :: "string \<Rightarrow> rng \<Rightarrow> drawing list \<times> rng" where
  "forest_tree prompt g =
     (let (x, g) = randint g;
          (height, g) = randint g;
          (drop, g) = randint g;
          y = 600 - height - drop;
          trunk = Draw Rectangle TreeTrunk None [x, y, height]
      in if str_in ''magical'' (lower prompt)
         then (let (r, g) = randint g;
                   base_green = 100 + r;
                   (glow_factor, g) = randint g;
                   foliage_color = (30 + glow_factor div 3, base_green, 30 + glow_factor);
                   (foliage, g) = for_each
                     (\<lambda>j g. let (dx, g) = randint g; (dy, g) = randint g;
                                 (ellipse_size, g) = randint g;
                                 (color_variation, g) = randint g;
                                 varied_color =
                                   (clamp255 (fst foliage_color + color_variation),
                                    clamp255 (fst (snd foliage_color) + color_variation),
                                    clamp255 (snd (snd foliage_color) + color_variation))
                             in ([Draw Ellipse TreeFoliage (Some varied_color)
                                    [x + dx, dy, ellipse_size]], g))
                     [0..<5::nat] g
               in (trunk # foliage, g))
         else (let (season_variation, g) = randint g;
                   (r, g) = randint g;
                   (foliage, g) = for_each
                     (\<lambda>j g. let (dx, g) = randint g; (dy, g) = randint g;
                                 (ellipse_size, g) = randint g;
                                 (color_variation, g) = randint g
                             in ([Draw Ellipse TreeFoliage None
                                    [x + dx, dy, ellipse_size,
                                     clamp255 (30 + season_variation + color_variation),
                                     clamp255 (80 + r + color_variation)]], g))
                     [0..<5::nat] g
               in (trunk # foliage, g)))"

definition forest :: "string \<Rightarrow> rng \<Rightarrow> drawing list \<times> rng" where
  "forest prompt g = for_each (\<lambda>_. forest_tree prompt) [0..<40::nat] g"

text \<open>
  The dragon, in the colour \<open>dragon_color = main_color\<close>: no condition guards
  these calls, and none of them uses a random number.
  The scale, membrane, bone and horn colours are computed in floating point.
\<close>

definition wing_bones :: "element \<Rightarrow> drawing list" where
  "wing_bones e =
     concat (map (\<lambda>bone. map (\<lambda>width. Draw Line e None [bone, width - 1]) [0, 1, 2]) [1, 2, 3])"

definition dragon :: "rgb \<Rightarrow> drawing list" where
  "dragon color =
     [Draw Ellipse DragonHead (Some color) [],
      Draw Polygon Snout (Some color) [],
      Draw Polygon DragonBody (Some color) []]
     @ map (\<lambda>i. Draw Ellipse SpineScale None [int i]) [0..<10]
     @ [Draw Polygon LeftWing None []] @ wing_bones LeftWingBone
     @ [Draw Polygon RightWing None []] @ wing_bones RightWingBone
     @ [Draw Ellipse DragonEye (Some (255, 255, 0)) [], Draw Ellipse DragonEye (Some (255, 255, 0)) [],
        Draw Polygon Horn None [], Draw Polygon Horn None [],
        Draw Ellipse Nostril (Some (0, 0, 0)) [], Draw Ellipse Nostril (Some (0, 0, 0)) []]"

definition star :: "rng \<Rightarrow> drawing list \<times> rng" where
  "star g =
     (let (x, g) = randint g;
          (y, g) = randint g;
          (size, g) = random_random g;
          (brightness, g) = randint g
      in ([Draw Ellipse Star (Some (brightness, brightness, brightness)) [x, y]], g))"

definition space_elements :: "string \<Rightarrow> rgb \<Rightarrow> rng \<Rightarrow> drawing list \<times> rng" where
  "space_elements prompt_lower color g =
     (let (stars, g) = for_each (\<lambda>_. star) [0..<500::nat] g;
          (planet_x, g) = randint g;
          (planet_y, g) = randint g;
          (planet_size, g) = randint g;
          planet_color = color;
          planet = Draw Ellipse Planet (Some planet_color)
                     [planet_x - planet_size, planet_y - planet_size,
                      planet_x + planet_size, planet_y + planet_size];
          rings =
            (if str_in ''ring'' prompt_lower \<or> str_in ''saturn'' prompt_lower
             then map (\<lambda>ring_size.
                         Draw Arc PlanetRing
                           (Some (fst planet_color div 2 + 50, fst (snd planet_color) div 2 + 50,
                                  snd (snd planet_color) div 2 + 50))
                           [planet_x - ring_size, planet_y - ring_size div 3,
                            planet_x + ring_size, planet_y + ring_size div 3])
                    (range3 (planet_size + 10) (planet_size + 40) 5)
             else [])
      in (stars @ [planet] @ rings, g))"

definition building_window :: "int \<Rightarrow> int \<Rightarrow> rng \<Rightarrow> drawing list \<times> rng" where
  "building_window wy wx g =
     (let (r, g) = random_random g
      in (if r > 3 / 10
          then [Draw Rectangle Window (Some (200, 200, 100)) [wx, wy, wx + 5, wy + 5]]
          else [], g))"

definition building :: "string \<Rightarrow> int \<Rightarrow> rng \<Rightarrow> drawing list \<times> rng" where
  "building prompt_lower x g =
     (let base_y = 420;
          (building_width, g) = randint g;
          (building_height, g) = randint g;
          (c1, g) = randint g; (c2, g) = randint g; (c3, g) = randint g;
          block = Draw Rectangle Building (Some (c1, c2, c3))
                    [x, base_y - building_height, x + building_width, base_y]
      in if str_in ''night'' prompt_lower
         then (let (windows, g) = for_each
                     (\<lambda>wy. for_each (building_window wy) (range3 (x + 5) (x + building_width - 5) 10))
                     (range3 (base_y - building_height + 10) (base_y - 10) 20) g
               in (block # windows, g))
         else ([block], g))"

definition car_light :: "rng \<Rightarrow> drawing list \<times> rng" where
  "car_light g =
     (let (light_x, g) = randint g;
          (light_y, g) = randint g;
          (light_size, g) = randint g;
          (r, g) = random_random g;
          light_color = (if r > 1 / 2 then (255, 200, 0) else (255, 0, 0))
      in ([Draw Ellipse CarLight (Some light_color)
             [light_x - light_size, light_y - light_size,
              light_x + light_size, light_y + light_size]], g))"

definition city_elements :: "string \<Rightarrow> rng \<Rightarrow> drawing list \<times> rng" where
  "city_elements prompt_lower g =
     (let (step, g) = randint g;
          (buildings, g) = for_each (building prompt_lower) (range3 0 800 step) g;
          road_y = 420;
          road = Draw Rectangle Road (Some (40, 40, 40)) [0, road_y, 800, 600];
          line_y = road_y + (600 - road_y) div 2;
          markings = map (\<lambda>x. Draw Rectangle RoadMarking (Some (200, 200, 200))
                                 [x, line_y, x + 20, line_y + 5])
                       (range3 0 800 40);
          (lights, g) = for_each (\<lambda>_. car_light) [0..<10::nat] g
      in (buildings @ [road] @ markings @ lights, g))"

definition tech_detail :: "rng \<Rightarrow> drawing list \<times> rng" where
  "tech_detail g =
     (let (detail_x, g) = randint g;
          (detail_y, g) = randint g;
          (detail_size, g) = randint g;
          (r, g) = random_random g;
          detail_color = (if r > 1 / 2 then (0, 200, 255) else (255, 50, 50));
          (r', g) = random_random g
      in (if r' > 1 / 2
          then [Draw Rectangle TechDetail (Some detail_color)
                  [detail_x - detail_size, detail_y - detail_size div 2,
                   detail_x + detail_size, detail_y + detail_size div 2]]
          else [Draw Ellipse TechDetail (Some detail_color)
                  [detail_x - detail_size, detail_y - detail_size,
                   detail_x + detail_size, detail_y + detail_size]], g))"

definition robot_elements :: "rgb \<Rightarrow> rng \<Rightarrow> drawing list \<times> rng" where
  "robot_elements color g =
     (let robot_x = 800 div 2;
          robot_y = 600 div 2;
          robot_width = 240;
          robot_height = 300;
          head_size = robot_width div 2;
          head_color = color;
          head = Draw Rectangle RobotHead (Some head_color)
                   [robot_x - head_size, robot_y - robot_height div 2 - head_size,
                    robot_x + head_size, robot_y - robot_height div 2 + head_size];
          eye_color = (0, 200, 255);
          eye_size = head_size div 4;
          eyes =
            [Draw Rectangle RobotEye (Some eye_color)
               [robot_x - head_size div 2 - eye_size div 2, robot_y - robot_height div 2 - eye_size,
                robot_x - head_size div 2 + eye_size div 2, robot_y - robot_height div 2],
             Draw Rectangle RobotEye (Some eye_color)
               [robot_x + head_size div 2 - eye_size div 2, robot_y - robot_height div 2 - eye_size,
                robot_x + head_size div 2 + eye_size div 2, robot_y - robot_height div 2]];
          body_color = (fst head_color div 2, fst (snd head_color) div 2, snd (snd head_color) div 2);
          body = Draw Rectangle RobotBody (Some body_color)
                   [robot_x - robot_width div 2, robot_y - robot_height div 2 + head_size,
                    robot_x + robot_width div 2, robot_y + robot_height div 2];
          limb_color = (80, 80, 80);
          arm_width = robot_width div 6;
          arms =
            [Draw Rectangle RobotArm (Some limb_color)
               [robot_x - robot_width div 2 - arm_width, robot_y - robot_height div 4,
                robot_x - robot_width div 2, robot_y + robot_height div 4],
             Draw Rectangle RobotArm (Some limb_color)
               [robot_x + robot_width div 2, robot_y - robot_height div 4,
                robot_x + robot_width div 2 + arm_width, robot_y + robot_height div 4]];
          legs =
            [Draw Rectangle RobotLeg (Some limb_color)
               [robot_x - robot_width div 3, robot_y + robot_height div 2,
                robot_x - robot_width div 6, robot_y + robot_height div 2 + robot_height div 3],
             Draw Rectangle RobotLeg (Some limb_color)
               [robot_x + robot_width div 6, robot_y + robot_height div 2,
                robot_x + robot_width div 3, robot_y + robot_height div 2 + robot_height div 3]];
          (details, g) = for_each (\<lambda>_. tech_detail) [0..<5::nat] g
      in ([head] @ eyes @ [body] @ arms @ legs @ details, g))"

text \<open>
  \<open>if image_type == "space" and "dragon" not in prompt_lower: ... elif ... city ...
  elif ... robot ...\<close>; a landscape or dragon scene gets nothing here.
\<close>

definition additional_elements :: "string \<Rightarrow> rng \<Rightarrow> drawing list \<times> rng" where
  "additional_elements prompt g =
     (let prompt_lower = lower prompt
      in if image_type prompt = Space \<and> \<not> str_in ''dragon'' prompt_lower
           then space_elements prompt_lower (main_color prompt) g
         else if image_type prompt = City \<and> \<not> str_in ''dragon'' prompt_lower
           then city_elements prompt_lower g
         else if image_type prompt = Robot \<and> \<not> str_in ''dragon'' prompt_lower
           then robot_elements (main_color prompt) g
         else ([], g))"

definition caption :: "string \<Rightarrow> drawing list" where
  "caption prompt =
     [Draw Rectangle CaptionBar (Some (0, 0, 0)) [0, 600 - 50, 800, 600],
      DrawText 20 (600 - 40) (''Prompt: '' @ prompt) (255, 255, 255)]"

definition create_ai_image :: "string \<Rightarrow> rng \<Rightarrow> drawing list \<times> rng" where
  "create_ai_image prompt g =
     (let (peaks, g) = mountains g;
          (trees, g) = forest prompt g;
          (magic, g) = magical_effects prompt g;
          (fire, g) = fire_breath prompt g;
          (extra, g) = additional_elements prompt g
      in (sky (image_type prompt) @ peaks @ trees @ magic @ dragon (main_color prompt) @ fire
            @ extra @ caption prompt, g))"

section \<open>The renderer of main.py: \<open>create_dragon_forest_image\<close>\<close>

definition dragon_forest_tree :: "string \<Rightarrow> rng \<Rightarrow> drawing list \<times> rng" where
  "dragon_forest_tree prompt g =
     (let (x, g) = randint g;
          (height, g) = randint g;
          (drop, g) = randint g;
          y = 600 - height - drop;
          (t1, g) = randint g; (t2, g) = randint g; (t3, g) = randint g;
          trunk_color = (60 + t1, 40 + t2, 20 + t3);
          trunk = Draw Rectangle TreeTrunk (Some trunk_color) [x, y, height];
          (f1, g) = randint g; (f2, g) = randint g; (f3, g) = randint g;
          foliage_color =
            (if str_in ''magical'' (lower prompt) then (30 + f1, 100 + f2, 30 + f3)
             else (30 + f1, 80 + f2, 30 + f3));
          (foliage, g) = for_each
             (\<lambda>j g. let (dx, g) = randint g; (dy, g) = randint g; (ellipse_size, g) = randint g
                     in ([Draw Ellipse TreeFoliage (Some foliage_color) [x + dx, dy, ellipse_size]], g))
             [0..<3::nat] g
      in (trunk # foliage, g))"

definition dragon_forest :: "string \<Rightarrow> rng \<Rightarrow> drawing list \<times> rng" where
  "dragon_forest prompt g = for_each (\<lambda>_. dragon_forest_tree prompt) [0..<30::nat] g"

text \<open>
  The imaging library. \<open>ImageDraw\<close> turns the \<open>fill\<close> of a call into an ink before it
  draws anything: in an RGB image a tuple of three or four integers is taken as it is,
  and a tuple that holds a float raises \<open>TypeError\<close>. A call whose ink is taken draws.
\<close>

datatype ink = Ints rgb | Floats "rat \<times> rat \<times> rat"

definition draw_shape :: "shape \<Rightarrow> element \<Rightarrow> ink \<Rightarrow> int list \<Rightarrow> exn + drawing" where
  "draw_shape s e fill args =
     (case fill of Ints c \<Rightarrow> Inr (Draw s e (Some c) args) | Floats c \<Rightarrow> Inl TypeError)"

text \<open>Calls made one after the other: the first that raises ends them.\<close>

fun calls :: "(exn + drawing) list \<Rightarrow> exn + drawing list" where
  "calls [] = Inr []"
| "calls (c # cs) =
     (case c of
        Inl e \<Rightarrow> Inl e
      | Inr d \<Rightarrow> (case calls cs of Inl e \<Rightarrow> Inl e | Inr ds \<Rightarrow> Inr (d # ds)))"

text \<open>
  The dragon of main.py: head, body, the two wings, the eyes, the horns and the
  nostrils, none of them using a random number.
  \<open>wing_color = (dragon_color[0]*0.8, dragon_color[1]*0.8, dragon_color[2]*0.8)\<close> is a
  tuple of floats, and it is the fill of the wings and of the horns.
\<close>

definition wing_color :: "rgb \<Rightarrow> ink" where
  "wing_color color =
     (case color of (r, g, b) \<Rightarrow>
        Floats (float_round (of_int r * float_round (8 / 10)),
                float_round (of_int g * float_round (8 / 10)),
                float_round (of_int b * float_round (8 / 10))))"

definition forest_dragon :: "rgb \<Rightarrow> exn + drawing list" where
  "forest_dragon color =
     calls
       [draw_shape Ellipse DragonHead (Ints color) [],
        draw_shape Polygon DragonBody (Ints color) [],
        draw_shape Polygon LeftWing (wing_color color) [],
        draw_shape Polygon RightWing (wing_color color) [],
        draw_shape Ellipse DragonEye (Ints (255, 255, 0)) [],
        draw_shape Ellipse DragonEye (Ints (255, 255, 0)) [],
        draw_shape Polygon Horn (wing_color color) [],
        draw_shape Polygon Horn (wing_color color) [],
        draw_shape Ellipse Nostril (Ints (0, 0, 0)) [],
        draw_shape Ellipse Nostril (Ints (0, 0, 0)) []]"

text \<open>
  \<open>create_dragon_forest_image\<close>: its image, or the exception that ends it. The sky,
  the mountains, the trees and the magical effects are drawn with integer inks; then
  comes the dragon, and behind it the flame and the caption. The caption text is wrapped
  by \<open>textwrap.fill\<close> before it is drawn; the drawing records the text before wrapping.
\<close>

definition create_dragon_forest_image :: "string \<Rightarrow> rng \<Rightarrow> (exn + drawing list) \<times> rng" where
  "create_dragon_forest_image prompt g =
     (let (peaks, g) = mountains g;
          (trees, g) = dragon_forest prompt g;
          (magic, g) = magical_effects prompt g
      in case forest_dragon (dragon_color prompt) of
           Inl e \<Rightarrow> (Inl e, g)
         | Inr body \<Rightarrow>
             (let (fire, g) = fire_breath prompt g
              in (Inr (sky Landscape @ peaks @ trees @ magic @ body @ fire
                    @ [Draw Rectangle CaptionBar (Some (0, 0, 0)) [0, 600 - 50, 800, 600],
                       DrawText 20 (600 - 40) (''Prompt: '' @ prompt) (255, 255, 255)]), g)))"

section \<open>Reading an image\<close>

text \<open>The element a drawing paints; the flame layers and the text have none.\<close>

fun element_of :: "drawing \<Rightarrow> element option" where
  "element_of (Draw s e fill args) = Some e"
| "element_of (FlameLayer i color scale ys) = None"
| "element_of (DrawText x y text fill) = None"

definition paints :: "element list \<Rightarrow> drawing \<Rightarrow> bool" where
  "paints es d = (case element_of d of Some e \<Rightarrow> e \<in> set es | None \<Rightarrow> False)"

fun is_flame :: "drawing \<Rightarrow> bool" where
  "is_flame (FlameLayer i color scale ys) = True"
| "is_flame (Draw s e fill args) = False"
| "is_flame (DrawText x y text fill) = False"

definition has_flame :: "drawing list \<Rightarrow> bool" where
  "has_flame img = list_ex is_flame img"

text \<open>
  Sample states of the generator, with every outcome inside the bounds of its call
  for a prompt without "magic" that is a landscape or a dragon scene. Integer outcomes
  of \<open>create_ai_image\<close>, repeating with every render: five mountains (height 150,
  width 240, x 100, no jitter), then forty trees (x 400, height 150, drop 30, no colour
  variation, five ellipses of size 40 in place). Float outcomes: 3/4 first, then 0.
\<close>

definition sample_ints :: "nat \<Rightarrow> int" where
  "sample_ints k =
     (let k = k mod 2215
      in if k < 1215
         then (let j = k mod 243
               in if j = 0 then 150 else if j = 1 then 240 else if j = 2 then 100 else 0)
         else (let j = (k - 1215) mod 25
               in if j = 0 then 400 else if j = 1 then 150 else if j = 2 then 30
                  else if 5 \<le> j \<and> (j - 5) mod 4 = 2 then 40 else 0))"

definition sample_rng :: rng where
  "sample_rng =
     \<lparr>ints = sample_ints, floats = (\<lambda>k. if k = 0 then 3 / 4 else 0),
      ints_taken = 0, floats_taken = 0\<rparr>"

text \<open>
  The same for \<open>create_dragon_forest_image\<close>: the mountains as above, then thirty trees
  (x 400, height 150, drop 30, no colour variation, three ellipses of size 40 in place).
\<close>

definition forest_sample_ints :: "nat \<Rightarrow> int" where
  "forest_sample_ints k =
     (let k = k mod 1755
      in if k < 1215
         then (let j = k mod 243
               in if j = 0 then 150 else if j = 1 then 240 else if j = 2 then 100 else 0)
         else (let j = (k - 1215) mod 18
               in if j = 0 then 400 else if j = 1 then 150 else if j = 2 then 30
                  else if 9 \<le> j \<and> (j - 9) mod 3 = 2 then 40 else 0))"

definition forest_sample_rng :: rng where
  "forest_sample_rng =
     \<lparr>ints = forest_sample_ints, floats = (\<lambda>k. if k = 0 then 3 / 4 else 0),
      ints_taken = 0, floats_taken = 0\<rparr>"

section \<open>More of Python's strings\<close>

text \<open>
  \<open>str.isspace\<close> on the code points below 256: tab to carriage return, the four
  separators 28 to 31, the space, and the Latin-1 characters 133 and 160.
\<close>

definition is_space :: "char \<Rightarrow> bool" where
  "is_space c =
     (let n = (of_char c :: nat)
      in (9 \<le> n \<and> n \<le> 13) \<or> (28 \<le> n \<and> n \<le> 32) \<or> n = 133 \<or> n = 160)"

text \<open>
  \<open>s.split()\<close>: the words between runs of whitespace, none of them empty.
  \<open>words_from w s\<close> scans \<open>s\<close> with the word \<open>w\<close> begun so far.
\<close>

fun words_from :: "string \<Rightarrow> string \<Rightarrow> string list" where
  "words_from w [] = (if w = [] then [] else [w])"
| "words_from w (c # s) =
     (if is_space c then (if w = [] then words_from [] s else w # words_from [] s)
      else words_from (w @ [c]) s)"

definition split_ws :: "string \<Rightarrow> string list" where
  "split_ws s = words_from [] s"

definition strip :: "string \<Rightarrow> string" where
  "strip s = rev (dropWhile is_space (rev (dropWhile is_space s)))"

text \<open>\<open>s.split(k, 1)[0]\<close> for a non-empty \<open>k\<close>: the part of \<open>s\<close> before the first \<open>k\<close>.\<close>

fun before_first :: "string \<Rightarrow> string \<Rightarrow> string" where
  "before_first k [] = []"
| "before_first k (c # s) = (if startswith (c # s) k then [] else c # before_first k s)"

text \<open>\<open>sep.join(xs)\<close>.\<close>

fun join_with :: "string \<Rightarrow> string list \<Rightarrow> string" where
  "join_with sep [] = []"
| "join_with sep [x] = x"
| "join_with sep (x # y # xs) = x @ sep @ join_with sep (y # xs)"

text \<open>\<open>str(n)\<close> of an integer: its decimal digits.\<close>

function digits_of :: "nat \<Rightarrow> string" where
  "digits_of n =
     (if n < 10 then [char_of (48 + n)] else digits_of (n div 10) @ [char_of (48 + n mod 10)])"
  by pat_completeness auto
termination
  by (relation "measure id") auto

definition str_int :: "int \<Rightarrow> string" where
  "str_int n = (if n < 0 then CHR ''-'' # digits_of (nat (- n)) else digits_of (nat n))"

text \<open>\<open>int(t)\<close> of a float: the integer towards zero.\<close>

definition py_int :: "rat \<Rightarrow> int" where
  "py_int t = (if 0 \<le> t then \<lfloor>t\<rfloor> else \<lceil>t\<rceil>)"

section \<open>The process and its surroundings\<close>

text \<open>
  A path is kept as the directory and the file name that \<open>os.path.join\<close> puts
  together, \<open>os.path.basename\<close> and \<open>os.path.dirname\<close> being its two parts; the file
  names of the program contain no separator.
\<close>

type_synonym path = "string \<times> string"

definition path_str :: "path \<Rightarrow> string" where
  "path_str p = fst p @ ''/'' @ snd p"

text \<open>
  A stored creation: the value kept in \<open>short_term\<close> and the columns of a row of the
  table \<open>memory\<close> other than its id. The tags are written to the table with
  \<open>json.dumps\<close> and read back with \<open>json.loads\<close>, which returns the same list.
\<close>

record memory =
  mem_timestamp :: string
  mem_prompt :: string
  mem_expanded_prompt :: string
  mem_image_path :: path
  mem_model_path :: path
  mem_tags :: "string list"

text \<open>
  An entry of the ChromaDB collection: its id is the decimal string of \<open>ce_id\<close>, its
  document the combined text, the rest its metadata.
\<close>

record chroma_entry =
  ce_id :: int
  ce_document :: string
  ce_timestamp :: rat
  ce_prompt :: string
  ce_expanded_prompt :: string
  ce_image_path :: path
  ce_model_path :: path
  ce_tags :: "string list"

text \<open>
  The content of an output file: the PNG encoding of an image, the text of a model
  file, or the viewer page, kept as the values its template is filled with.
\<close>

datatype artifact =
    PngImage "drawing list"
  | ObjModel string
  | ViewerPage int
  | ImageViewerPage int string string

text \<open>
  The state in which a request is served. Besides what the program keeps (the session
  memory, the rows of the table, the ChromaDB collection, the files of the output
  directory) it holds what the surroundings will answer: the state of the random
  generator, the outcomes of the coming calls of \<open>time.time()\<close> and of
  \<open>datetime.now().isoformat()\<close>, and whether the INSERT and SELECT statements of
  SQLite and the calls of ChromaDB complete without raising. Writing an output file is
  taken to succeed.
\<close>

record world =
  gen :: rng
  times :: "nat \<Rightarrow> rat"
  nows :: "nat \<Rightarrow> string"
  db_insert_ok :: bool
  db_select_ok :: bool
  chroma_ok :: bool
  output_dir :: string
  files :: "path \<rightharpoonup> artifact"
  short_term :: "int \<rightharpoonup> memory"
  rows :: "(nat \<times> memory) list"
  collection :: "chroma_entry list"

definition time_time :: "world \<Rightarrow> rat \<times> world" where
  "time_time w = (times w 0, w\<lparr>times := (\<lambda>k. times w (Suc k))\<rparr>)"

definition now_isoformat :: "world \<Rightarrow> string \<times> world" where
  "now_isoformat w = (nows w 0, w\<lparr>nows := (\<lambda>k. nows w (Suc k))\<rparr>)"

section \<open>The memory of main.py: \<open>MemoryManager\<close>\<close>

text \<open>
  The INSERT of \<open>store\<close> with its commit: it raises when the database does not take
  it, and otherwise appends a row under the next id.
\<close>

definition db_insert :: "memory \<Rightarrow> world \<Rightarrow> exn + world" where
  "db_insert m w =
     (if db_insert_ok w
      then Inr (w\<lparr>rows := rows w @ [(Suc (fold max (map fst (rows w)) 0), m)]\<rparr>)
      else Inl OperationalError)"

text \<open>
  \<open>MemoryManager.store\<close>: the session memory is written first, under the second of
  the clock; the \<open>try\<close> around the INSERT logs the exception and goes on.
\<close>

definition store :: "string \<Rightarrow> string \<Rightarrow> path \<Rightarrow> path \<Rightarrow> string list \<Rightarrow> world \<Rightarrow> exn + world" where
  "store prompt expanded_prompt image_path model_path tags w =
     (let (timestamp, w) = now_isoformat w;
          (t, w) = time_time w;
          memory_id = py_int t;
          m = \<lparr>mem_timestamp = timestamp, mem_prompt = prompt,
               mem_expanded_prompt = expanded_prompt, mem_image_path = image_path,
               mem_model_path = model_path, mem_tags = tags\<rparr>;
          w = w\<lparr>short_term := (short_term w)(memory_id \<mapsto> m)\<rparr>
      in case db_insert m w of
           Inr w' \<Rightarrow> Inr w'
         | Inl e \<Rightarrow> Inr w)"

text \<open>
  \<open>ORDER BY timestamp DESC LIMIT ?\<close>: the rows from the greatest timestamp down, text
  compared character by character, rows of equal timestamps in the order of their ids;
  SQLite reads a negative limit as no limit.
\<close>

definition order_by_timestamp_desc :: "(nat \<times> memory) list \<Rightarrow> (nat \<times> memory) list" where
  "order_by_timestamp_desc rs = rev (sort_key (\<lambda>r. mem_timestamp (snd r)) (rev rs))"

definition sql_limit :: "int \<Rightarrow> 'a list \<Rightarrow> 'a list" where
  "sql_limit limit xs = (if limit < 0 then xs else take (nat limit) xs)"

definition get_recent :: "int \<Rightarrow> world \<Rightarrow> (nat \<times> memory) list" where
  "get_recent limit w =
     (if db_select_ok w then sql_limit limit (order_by_timestamp_desc (rows w)) else [])"

text \<open>
  \<open>MemoryManager.search\<close>. Which rows the \<open>LIKE\<close> patterns of SQLite select is left
  to a parameter \<open>like\<close>, given the query and the rows; an exception gives no rows.
\<close>

definition search :: "(string \<Rightarrow> (nat \<times> memory) list \<Rightarrow> (nat \<times> memory) list) \<Rightarrow> string \<Rightarrow> world
    \<Rightarrow> (nat \<times> memory) list" where
  "search like query w = (if db_select_ok w then like query (rows w) else [])"

section \<open>The memory of test\_app.py: \<open>ChromaMemoryManager\<close>\<close>

text \<open>
  \<open>collection.add\<close>: the entry goes to the end of the collection. The call raises, or
  adds nothing, when ChromaDB fails or the id is already in the collection; \<open>store\<close>
  logs the exception and goes on.
\<close>

definition chroma_store :: "string \<Rightarrow> string \<Rightarrow> path \<Rightarrow> path \<Rightarrow> string list \<Rightarrow> world \<Rightarrow> exn + world" where
  "chroma_store prompt expanded_prompt image_path model_path tags w =
     (let (t, w) = time_time w;
          memory_id = py_int t;
          combined_text = prompt @ '' '' @ expanded_prompt @ '' '' @ join_with '' '' tags;
          (t', w) = time_time w;
          entry = \<lparr>ce_id = memory_id, ce_document = combined_text, ce_timestamp = t',
                   ce_prompt = prompt, ce_expanded_prompt = expanded_prompt,
                   ce_image_path = image_path, ce_model_path = model_path, ce_tags = tags\<rparr>
      in if chroma_ok w \<and> memory_id \<notin> set (map ce_id (collection w))
         then Inr (w\<lparr>collection := collection w @ [entry]\<rparr>)
         else Inr w)"

text \<open>
  \<open>sorted(xs, key=..., reverse=True)\<close>: descending, equal keys in their order in \<open>xs\<close>.
\<close>

definition sorted_reverse :: "('a \<Rightarrow> rat) \<Rightarrow> 'a list \<Rightarrow> 'a list" where
  "sorted_reverse key xs = rev (sort_key key (rev xs))"

text \<open>
  \<open>ChromaMemoryManager.get_recent\<close>, for a limit that is not negative.
  \<open>collection.get(limit=limit)\<close> returns the first \<open>limit\<close> entries of the collection
  in the order they were added; these are sorted and cut to \<open>limit\<close> again.
\<close>

definition collection_get :: "nat \<Rightarrow> chroma_entry list \<Rightarrow> chroma_entry list" where
  "collection_get limit entries = take limit entries"

definition chroma_get_recent :: "nat \<Rightarrow> world \<Rightarrow> chroma_entry list" where
  "chroma_get_recent limit w =
     (if chroma_ok w
      then (let results = collection_get limit (collection w)
            in if results = [] then []
               else take limit (sorted_reverse ce_timestamp results))
      else [])"

section \<open>The prompt expansion of main.py: \<open>LocalLLM.generate\<close>\<close>

definition dragon_enhancement :: string where
  "dragon_enhancement =
     ''a majestic dragon with intricate scales, powerful wings outspread,'' @
     '' standing on a rocky cliff overlooking a vast landscape, with'' @
     '' dramatic sunset lighting creating golden highlights on its scales''"

definition robot_enhancement :: string where
  "robot_enhancement =
     ''a sleek, futuristic robot with glowing LED details, metallic surface'' @
     '' reflecting ambient light, detailed mechanical joints and panels,'' @
     '' standing in a high-tech laboratory environment with subtle blue'' @
     '' lighting''"

definition city_enhancement :: string where
  "city_enhancement =
     ''a sprawling cyberpunk cityscape with neon signs illuminating'' @
     '' rain-slicked streets, towering skyscrapers with holographic'' @
     '' advertisements, flying vehicles navigating between buildings, and'' @
     '' crowds of people under a night sky filled with industrial haze''"

definition forest_enhancement :: string where
  "forest_enhancement =
     ''an enchanted forest with ancient trees covered in luminescent moss,'' @
     '' shaft of golden sunlight filtering through the dense canopy,'' @
     '' magical creatures hiding among colorful mushrooms, and a misty'' @
     '' atmosphere creating depth and mystery''"

definition dragon_forest_enhancement :: string where
  "dragon_forest_enhancement =
     ''a majestic dragon with emerald scales and golden eyes in an'' @
     '' enchanted forest, surrounded by ancient trees with glowing moss,'' @
     '' magical fireflies illuminating the scene, and a misty atmosphere'' @
     '' creating depth with shafts of moonlight breaking through the dense'' @
     '' canopy''"

text \<open>
  The dictionary \<open>enhancements\<close> in the order of its keys; "dragon in forest" has the
  text of "dragon forest", and "magical forest" the text of "forest".
\<close>

definition enhancements :: "(string \<times> string) list" where
  "enhancements =
     [(''dragon'', dragon_enhancement), (''robot'', robot_enhancement),
      (''city'', city_enhancement), (''forest'', forest_enhancement),
      (''dragon forest'', dragon_forest_enhancement),
      (''dragon in forest'', dragon_forest_enhancement),
      (''magical forest'', forest_enhancement)]"

definition combined_keywords :: "string list" where
  "combined_keywords = [''dragon forest'', ''dragon in forest'', ''magical forest'']"

text \<open>
  The end of \<open>generate\<close>: \<open>if expanded == prompt\<close>, the generic enhancement of the
  prompt, which by then carries the matched keyword in front.
\<close>

definition finish_expansion :: "string \<Rightarrow> string \<Rightarrow> string" where
  "finish_expansion expanded prompt =
     (if expanded = prompt
      then prompt @ '', with highly detailed textures, dramatic lighting, '' @
           ''cinematic composition, photo-realistic quality''
      else expanded)"

text \<open>
  The first loop runs over \<open>combined_keywords\<close> and reads \<open>enhancements[combo]\<close>; its
  \<open>else\<close> branch runs over the dictionary and skips the combined keywords.
\<close>

definition generate :: "string \<Rightarrow> string" where
  "generate prompt =
     (case find (\<lambda>(combo, enhancement).
                   combo \<in> set combined_keywords \<and> str_in (lower combo) (lower prompt))
             enhancements of
        Some (combo, enhancement) \<Rightarrow> finish_expansion enhancement (combo @ '': '' @ prompt)
      | None \<Rightarrow>
          (case find (\<lambda>(keyword, enhancement).
                        str_in (lower keyword) (lower prompt)
                        \<and> keyword \<notin> set combined_keywords)
                  enhancements of
             Some (keyword, enhancement) \<Rightarrow>
               finish_expansion enhancement (keyword @ '': '' @ prompt)
           | None \<Rightarrow> finish_expansion prompt prompt))"

section \<open>Request bodies\<close>

text \<open>
  What decoding a JSON document yields in Python: \<open>None\<close>, a \<open>bool\<close>, an \<open>int\<close>, a
  \<open>float\<close>, a \<open>str\<close>, a \<open>list\<close>, or a \<open>dict\<close> with its keys, each once, in the order
  of the document. A float is kept with its value and with the text that \<open>repr\<close> gives
  for it, which the model does not compute.
\<close>

datatype json =
    JNull | JBool bool | JInt int | JFloat rat string | JStr string
  | JList "json list" | JDict "(string \<times> json) list"

text \<open>\<open>not v\<close>.\<close>

fun falsy :: "json \<Rightarrow> bool" where
  "falsy JNull = True"
| "falsy (JBool b) = (\<not> b)"
| "falsy (JInt n) = (n = 0)"
| "falsy (JFloat x r) = (x = 0)"
| "falsy (JStr s) = (s = [])"
| "falsy (JList xs) = (xs = [])"
| "falsy (JDict kvs) = (kvs = [])"

text \<open>
  \<open>'prompt' in v\<close>: a key of a dict, a part of a string, an element of a list; a
  number or a bool is not iterable.
\<close>

fun contains_prompt :: "json \<Rightarrow> exn + bool" where
  "contains_prompt (JDict kvs) = Inr (''prompt'' \<in> set (map fst kvs))"
| "contains_prompt (JStr s) = Inr (str_in ''prompt'' s)"
| "contains_prompt (JList xs) = Inr (JStr ''prompt'' \<in> set xs)"
| "contains_prompt v = Inl TypeError"

text \<open>\<open>v['prompt']\<close>: the value of the key in a dict; a string or a list takes no string as index.\<close>

fun subscript_prompt :: "json \<Rightarrow> exn + json" where
  "subscript_prompt (JDict kvs) =
     (case map_of kvs ''prompt'' of Some v \<Rightarrow> Inr v | None \<Rightarrow> Inl KeyError)"
| "subscript_prompt v = Inl TypeError"

text \<open>
  \<open>repr\<close> of a string: between single quotes, or between double quotes when the string
  has a single quote and no double quote; the quote and the backslash get a backslash
  in front, tab, newline and carriage return are written as a backslash and the letter
  t, n or r, and every other character that is not printable as a backslash, the letter
  x and the two hexadecimal digits of its code.
\<close>

definition printable :: "char \<Rightarrow> bool" where
  "printable c =
     (let n = (of_char c :: nat) in (32 \<le> n \<and> n \<le> 126) \<or> (161 \<le> n \<and> n \<noteq> 173))"

definition hex_digit :: "nat \<Rightarrow> char" where
  "hex_digit d = (if d < 10 then char_of (48 + d) else char_of (87 + d))"

definition repr_char :: "char \<Rightarrow> char \<Rightarrow> string" where
  "repr_char quote c =
     (if c = quote \<or> c = CHR 0x5C then [CHR 0x5C, c]
      else if c = CHR 0x09 then [CHR 0x5C, CHR ''t'']
      else if c = CHR 0x0A then [CHR 0x5C, CHR ''n'']
      else if c = CHR 0x0D then [CHR 0x5C, CHR ''r'']
      else if printable c then [c]
      else [CHR 0x5C, CHR ''x'', hex_digit (of_char c div 16), hex_digit (of_char c mod 16)])"

definition repr_str :: "string \<Rightarrow> string" where
  "repr_str s =
     (let quote = (if CHR 0x27 \<in> set s \<and> CHR 0x22 \<notin> set s then CHR 0x22 else CHR 0x27)
      in [quote] @ concat (map (repr_char quote) s) @ [quote])"

fun py_repr :: "json \<Rightarrow> string" where
  "py_repr JNull = ''None''"
| "py_repr (JBool b) = (if b then ''True'' else ''False'')"
| "py_repr (JInt n) = str_int n"
| "py_repr (JFloat x r) = r"
| "py_repr (JStr s) = repr_str s"
| "py_repr (JList xs) = ''['' @ join_with '', '' (map py_repr xs) @ '']''"
| "py_repr (JDict kvs) =
     ''{'' @ join_with '', '' (map (\<lambda>(k, v). repr_str k @ '': '' @ py_repr v) kvs) @ ''}''"

text \<open>\<open>str(v)\<close>: a string is itself, every other value has the text of its \<open>repr\<close>.\<close>

definition py_str :: "json \<Rightarrow> string" where
  "py_str v = (case v of JStr s \<Rightarrow> s | _ \<Rightarrow> py_repr v)"

text \<open>
  A request, as \<open>request.json\<close> reads it. Flask raises an exception of werkzeug when
  the body is not JSON: \<open>UnsupportedMediaType\<close> when the content type of the request is
  not JSON (\<open>BadRequest\<close> in the versions 2.1 and 2.2; before them the value was \<open>None\<close>),
  and \<open>BadRequest\<close> when the body cannot be decoded.
\<close>

datatype request = NotJson | Undecodable | Json json

definition request_json :: "request \<Rightarrow> exn + json" where
  "request_json r =
     (case r of
        NotJson \<Rightarrow> Inl UnsupportedMediaType
      | Undecodable \<Rightarrow> Inl BadRequest
      | Json v \<Rightarrow> Inr v)"

section \<open>The pipeline of main.py\<close>

definition reference_keywords :: "string list" where
  "reference_keywords =
     [''like the one'', ''similar to'', ''same as'', ''like I created'', ''like the'', ''like my'']"

definition reference_stop_words :: "string list" where
  "reference_stop_words =
     [''like'', ''the'', ''one'', ''similar'', ''same'', ''created'', ''make'', ''generate'']"

text \<open>\<open>max(matches, key=lambda x: x["timestamp"])\<close>: the first of the greatest.\<close>

fun first_max :: "(nat \<times> memory) \<Rightarrow> (nat \<times> memory) list \<Rightarrow> (nat \<times> memory)" where
  "first_max best [] = best"
| "first_max best (r # rs) =
     first_max (if mem_timestamp (snd best) < mem_timestamp (snd r) then r else best) rs"

definition extract_memory_references ::
    "(string \<Rightarrow> (nat \<times> memory) list \<Rightarrow> (nat \<times> memory) list) \<Rightarrow> string \<Rightarrow> world
      \<Rightarrow> string \<times> (nat \<times> memory) option" where
  "extract_memory_references like prompt w =
     (let lower_prompt = lower prompt
      in if list_ex (\<lambda>keyword. str_in keyword lower_prompt) reference_keywords
         then (let words = split_ws prompt;
                   potential_tags =
                     filter (\<lambda>word. length word > 3
                                \<and> lower word \<notin> set reference_stop_words) words;
                   matches = concat (map (\<lambda>tag. search like tag w) potential_tags)
               in case matches of
                    [] \<Rightarrow> (prompt, None)
                  | m # ms \<Rightarrow>
                      (case find (\<lambda>keyword. str_in keyword lower_prompt) reference_keywords of
                         Some keyword \<Rightarrow>
                           (strip (before_first keyword (lower prompt)), Some (first_max m ms))
                       | None \<Rightarrow> (prompt, None)))
         else (prompt, None))"

text \<open>
  \<open>generate_text_to_image(stub, prompt)\<close> reads neither the stub nor the user id. Its
  body is one \<open>try\<close>: it returns the PNG bytes of the image, kept here as the image, and
  \<open>None\<close> when the renderer raises. The random numbers the renderer has taken by then
  are gone from the generator.
\<close>

definition generate_text_to_image :: "string \<Rightarrow> world \<Rightarrow> drawing list option \<times> world" where
  "generate_text_to_image prompt w =
     (let (img, g) = create_dragon_forest_image prompt (gen w);
          w = w\<lparr>gen := g\<rparr>
      in case img of Inr drawn \<Rightarrow> (Some drawn, w) | Inl e \<Rightarrow> (None, w))"

definition save_results :: "drawing list \<Rightarrow> string \<Rightarrow> world \<Rightarrow> (path \<times> path) \<times> world" where
  "save_results image_data model_data w =
     (let (t, w) = time_time w;
          timestamp = py_int t;
          image_path = (output_dir w, ''image_'' @ str_int timestamp @ ''.png'');
          model_path = (output_dir w, ''model_'' @ str_int timestamp @ ''.obj'');
          html_path = (output_dir w, ''view_'' @ str_int timestamp @ ''.html'');
          w = w\<lparr>files := (files w)(image_path \<mapsto> PngImage image_data,
                                    model_path \<mapsto> ObjModel model_data,
                                    html_path \<mapsto> ViewerPage timestamp)\<rparr>
      in ((image_path, model_path), w))"

text \<open>
  The tags of a creation, the same expression in \<open>execute\<close> and in \<open>generate\<close> of
  test\_app.py: \<open>[word.lower() for word in prompt.split() if len(word) > 3]\<close>.
\<close>

definition prompt_tags :: "string \<Rightarrow> string list" where
  "prompt_tags prompt = [lower word. word \<leftarrow> split_ws prompt, length word > 3]"

record file_names =
  image_file :: string
  model_file :: string
  viewer_file :: string

text \<open>
  The dictionaries the handlers return: a message alone; the message, files and output
  directory of \<open>execute\<close>; the message and files of test\_app.py.
\<close>

datatype envelope =
    Message string
  | Created string file_names string
  | CreatedImage string file_names

text \<open>
  The prompt of a request, \<open>model.request.prompt\<close>: the value of the key "prompt" when
  the request is a dict that has it, and otherwise \<open>str(request_data)\<close>, which raises
  for no decoded value. The branch between the two, \<open>hasattr(request_data, 'prompt')\<close>,
  is taken by no decoded value: none of their types has an attribute \<open>prompt\<close>.
\<close>

definition request_prompt :: "json \<Rightarrow> json" where
  "request_prompt request_data =
     (case request_data of
        JDict kvs \<Rightarrow>
          (case map_of kvs ''prompt'' of
             Some v \<Rightarrow> v
           | None \<Rightarrow> JStr (py_str request_data))
      | _ \<Rightarrow> JStr (py_str request_data))"

text \<open>
  Step 1 of \<open>execute\<close>: the prompt, cleaned of a reference to an earlier creation
  when one is found in the memory, is expanded.
\<close>

definition expand_prompt ::
    "(string \<Rightarrow> (nat \<times> memory) list \<Rightarrow> (nat \<times> memory) list) \<Rightarrow> string \<Rightarrow> world \<Rightarrow> string" where
  "expand_prompt like user_prompt w =
     (let (clean_prompt, referenced_memory) = extract_memory_references like user_prompt w
      in case referenced_memory of
           Some r \<Rightarrow> generate (clean_prompt @ '', similar to '' @ mem_expanded_prompt (snd r))
         | None \<Rightarrow> generate clean_prompt)"

text \<open>
  \<open>execute\<close>. A prompt that is not a string and not falsy raises \<open>AttributeError\<close> in
  \<open>prompt.lower()\<close>, the first thing \<open>extract_memory_references\<close> does.
\<close>

definition execute ::
    "(string \<Rightarrow> (nat \<times> memory) list \<Rightarrow> (nat \<times> memory) list) \<Rightarrow> json \<Rightarrow> world
      \<Rightarrow> (exn + envelope) \<times> world" where
  "execute like request_data w =
     (let prompt = request_prompt request_data
      in if falsy prompt
         then (Inr (Message ''Please provide a prompt to generate content.''), w)
         else
           (case prompt of
              JStr user_prompt \<Rightarrow>
                (let expanded_prompt = expand_prompt like user_prompt w;
                     (image_data, w) = generate_text_to_image expanded_prompt w
                 in case image_data of
                      None \<Rightarrow> (Inr (Message ''Failed to generate image from prompt.''), w)
                    | Some img \<Rightarrow>
                        (case generate_image_to_3d () img ''super-user'' of
                           None \<Rightarrow> (Inr (Message ''Failed to generate 3D model from image.''), w)
                         | Some model_data \<Rightarrow>
                             if model_data = []
                             then (Inr (Message ''Failed to generate 3D model from image.''), w)
                             else
                               (let ((image_path, model_path), w) = save_results img model_data w;
                                    tags = prompt_tags user_prompt
                                in case store user_prompt expanded_prompt image_path model_path tags w of
                                     Inl e \<Rightarrow> (Inl e, w)
                                   | Inr w \<Rightarrow>
                                       (let image_filename = snd image_path;
                                            model_filename = snd model_path;
                                            (t, w) = time_time w;
                                            html_filename = ''view_'' @ str_int (py_int t) @ ''.html'';
                                            dir = fst image_path;
                                            response_message =
                                              ''Created: '' @ user_prompt @ [nl] @
                                              ''Expanded: '' @ expanded_prompt @ [nl] @
                                              ''Image saved to: '' @ path_str image_path @ [nl] @
                                              ''3D model saved to: '' @ path_str model_path @ [nl] @
                                              ''View results at: '' @ path_str (dir, html_filename) @ [nl]
                                        in (Inr (Created response_message
                                                  \<lparr>image_file = image_filename,
                                                   model_file = model_filename,
                                                   viewer_file = html_filename\<rparr> dir), w)))))
            | _ \<Rightarrow> (Inl AttributeError, w)))"

section \<open>The HTTP handlers\<close>

text \<open>
  A response is its status and its JSON: the error "Missing 'prompt' in request", the
  text of an exception, or a result. Both handlers read \<open>request.json\<close> inside their
  \<open>try\<close>, and answer every exception with status 500.
\<close>

datatype payload = MissingPrompt | ServerError exn | Result envelope


definition image_type_label :: "string \<Rightarrow> string" where
  "image_type_label prompt =
     (let prompt_lower = lower prompt
      in if str_in ''dragon'' prompt_lower then ''Dragon''
         else if str_in ''robot'' prompt_lower then ''Robot''
         else if str_in ''city'' prompt_lower then ''City''
         else if str_in ''space'' prompt_lower then ''Space''
         else ''Image'')"

text \<open>
  \<open>generate\<close> of test\_app.py. A prompt that is not a string raises \<open>AttributeError\<close> in
  \<open>prompt.lower()\<close>, the first thing \<open>create_ai_image\<close> does with it, before anything
  is drawn or written. Every ink of \<open>create_ai_image\<close> is a tuple of integers.
\<close>

definition test_generate :: "request \<Rightarrow> world \<Rightarrow> (nat \<times> payload) \<times> world" where
  "test_generate r w =
     (case request_json r of
        Inl e \<Rightarrow> ((500, ServerError e), w)
      | Inr data \<Rightarrow>
          if falsy data then ((400, MissingPrompt), w)
          else
            (case contains_prompt data of
               Inl e \<Rightarrow> ((500, ServerError e), w)
             | Inr False \<Rightarrow> ((400, MissingPrompt), w)
             | Inr True \<Rightarrow>
                 (case subscript_prompt data of
                    Inl e \<Rightarrow> ((500, ServerError e), w)
                  | Inr (JStr prompt) \<Rightarrow>
                      (let (img, g) = create_ai_image prompt (gen w);
                           w = w\<lparr>gen := g\<rparr>;
                           (t, w) = time_time w;
                           timestamp = py_int t;
                           image_filename = ''image_'' @ str_int timestamp @ ''.png'';
                           image_path = (output_dir w, image_filename);
                           w = w\<lparr>files := (files w)(image_path \<mapsto> PngImage img)\<rparr>;
                           model_filename = ''model_'' @ str_int timestamp @ ''.obj'';
                           model_path = (output_dir w, model_filename);
                           w = w\<lparr>files := (files w)(model_path \<mapsto> ObjModel cube_obj_text)\<rparr>;
                           html_filename = ''view_'' @ str_int timestamp @ ''.html'';
                           html_path = (output_dir w, html_filename);
                           w = w\<lparr>files := (files w)(html_path \<mapsto>
                                   ImageViewerPage timestamp prompt (image_type_label prompt))\<rparr>;
                           tags = prompt_tags prompt
                       in case chroma_store prompt prompt image_path model_path tags w of
                            Inl e \<Rightarrow> ((500, ServerError e), w)
                          | Inr w \<Rightarrow>
                              ((200, Result (CreatedImage (''Created image from prompt: '' @ prompt)
                                      \<lparr>image_file = ''/output/'' @ image_filename,
                                       model_file = ''/output/'' @ model_filename,
                                       viewer_file = ''/output/'' @ html_filename\<rparr>)), w))
                  | Inr v \<Rightarrow> ((500, ServerError AttributeError), w))))"

section \<open>Tags, as the specification words them\<close>

text \<open>
  The tokens of a text: skip whitespace, take the characters up to the next whitespace,
  and go on behind them. The tags are the tokens longer than 3 characters, lower-cased,
  in order.
\<close>

function tokens :: "string \<Rightarrow> string list" where
  "tokens s =
     (let s' = dropWhile is_space s
      in if s' = [] then []
         else takeWhile (\<lambda>c. \<not> is_space c) s' # tokens (dropWhile (\<lambda>c. \<not> is_space c) s'))"
  by pat_completeness auto
termination
proof (relation "measure length")
  show "wf (measure length)"
    by simp
next
  fix s s' :: string
  assume s': "s' = dropWhile is_space s" and ne: "s' \<noteq> []"
  from ne obtain c rest where c: "s' = c # rest"
    by (cases s') auto
  have "\<not> is_space (hd (dropWhile is_space s))"
    using hd_dropWhile [of is_space s] ne s' by simp
  then have "\<not> is_space c"
    using c s' by simp
  then have "length (dropWhile (\<lambda>c. \<not> is_space c) s') \<le> length rest"
    using c length_dropWhile_le [of "\<lambda>c. \<not> is_space c" rest] by simp
  moreover have "length s' \<le> length s"
    using s' length_dropWhile_le [of is_space s] by simp
  ultimately have "length (dropWhile (\<lambda>c. \<not> is_space c) s') < length s"
    using c by simp
  then show "(dropWhile (\<lambda>c. \<not> is_space c) s', s) \<in> measure length"
    by simp
qed

definition spec_tags :: "string \<Rightarrow> string list" where
  "spec_tags prompt = map lower (filter (\<lambda>token. 3 < length token) (tokens prompt))"

text \<open>Sample states for the examples: an empty store, four clock readings a second.\<close>

definition sample_world :: world where
  "sample_world =
     \<lparr>gen = forest_sample_rng,
      times = (\<lambda>k. 1700000000 + of_nat k / 4),
      nows = (\<lambda>k. ''2023-11-14T22:13:20.250000''),
      db_insert_ok = True, db_select_ok = True, chroma_ok = True,
      output_dir = ''/app/output'',
      files = Map.empty, short_term = Map.empty, rows = [], collection = []\<rparr>"

text \<open>A \<open>like\<close> that selects the rows whose prompt contains the query.\<close>

definition sample_like :: "string \<Rightarrow> (nat \<times> memory) list \<Rightarrow> (nat \<times> memory) list" where
  "sample_like query rs = filter (\<lambda>r. str_in query (mem_prompt (snd r))) rs"

text \<open>The same with ten seconds between the readings of the clock.\<close>

definition slow_world :: world where
  "slow_world = sample_world\<lparr>gen := sample_rng, times := (\<lambda>k. 1700000000 + 10 * of_nat k)\<rparr>"

section \<open>Facts about strings\<close>

lemma startswith_iff_prefix: "startswith s k \<longleftrightarrow> prefix k s"
  by (induction s k rule: startswith.induct) auto

lemma str_in_iff_sublist: "str_in k s \<longleftrightarrow> sublist k s"
proof (induction s)
  case Nil
  show ?case by auto
next
  case (Cons c s)
  show ?case
    by (simp only: str_in.simps startswith_iff_prefix Cons.IH sublist_Cons_right)
qed

lemma mentions_iff: "mentions prompt kw \<longleftrightarrow> str_in kw (lower prompt)"
proof
  assume "mentions prompt kw"
  then obtain us w vs where "prompt = us @ w @ vs" and "lower w = kw"
    unfolding mentions_def by blast
  then have "lower prompt = lower us @ kw @ lower vs"
    by (simp add: lower_def)
  then show "str_in kw (lower prompt)"
    unfolding str_in_iff_sublist sublist_def by blast
next
  assume "str_in kw (lower prompt)"
  then obtain ps ss where "map lower_char prompt = ps @ kw @ ss"
    unfolding str_in_iff_sublist sublist_def lower_def by blast
  then obtain us rest where p: "prompt = us @ rest" and r: "map lower_char rest = kw @ ss"
    by (metis map_eq_append_conv)
  from r obtain w vs where "rest = w @ vs" and "map lower_char w = kw"
    by (metis map_eq_append_conv)
  with p show "mentions prompt kw"
    unfolding mentions_def lower_def by blast
qed

lemma any_in_iff: "any_in kws (lower prompt) \<longleftrightarrow> (\<exists>kw\<in>set kws. mentions prompt kw)"
  by (simp add: any_in_def list_ex_iff mentions_iff)

lemmas str_eval = lower_def lower_char_def char_of_def bit_Suc_0_iff mentions_iff

section \<open>Scene classification\<close>

text \<open>
  C1. A prompt that contains "dragon", "drake", "wyvern" or "serpent" in any letter case
  is classified as a dragon scene, whatever robot, city or space keywords it also
  contains; a prompt that contains none of the sixteen category keywords is a landscape.
\<close>

theorem image_type_first_match:
  "(kw \<in> set dragon_keywords \<and> mentions prompt kw \<longrightarrow> image_type prompt = Dragon) \<and>
   ((\<forall>k\<in>set category_keywords. \<not> mentions prompt k) \<longrightarrow> image_type prompt = Landscape)"
proof (intro conjI impI)
  assume "kw \<in> set dragon_keywords \<and> mentions prompt kw"
  then have "any_in dragon_keywords (lower prompt)"
    unfolding any_in_iff by blast
  then show "image_type prompt = Dragon"
    by (simp add: image_type_def)
next
  assume none: "\<forall>k\<in>set category_keywords. \<not> mentions prompt k"
  have "\<not> any_in dragon_keywords (lower prompt)" "\<not> any_in robot_keywords (lower prompt)"
    "\<not> any_in city_keywords (lower prompt)" "\<not> any_in space_keywords (lower prompt)"
    using none unfolding any_in_iff category_keywords_def by auto
  then show "image_type prompt = Landscape"
    by (simp add: image_type_def)
qed

theorem image_type_first_match_witness:
  "''dragon'' \<in> set dragon_keywords \<and> mentions ''a DRAGON in a city'' ''dragon'' \<and>
   mentions ''a DRAGON in a city'' ''city'' \<and>
   image_type ''a DRAGON in a city'' = Dragon \<and>
   list_all (\<lambda>k. \<not> mentions ''a quiet meadow'' k) category_keywords \<and>
   image_type ''a quiet meadow'' = Landscape"
proof -
  have kw: "''dragon'' \<in> set dragon_keywords"
    by (simp add: dragon_keywords_def)
  have m: "mentions ''a DRAGON in a city'' ''dragon''"
    by (simp add: str_eval)
  have c: "mentions ''a DRAGON in a city'' ''city''"
    by (simp add: str_eval)
  have n: "list_all (\<lambda>k. \<not> mentions ''a quiet meadow'' k) category_keywords"
    by (simp add: str_eval category_keywords_def dragon_keywords_def robot_keywords_def
        city_keywords_def space_keywords_def)
  have d: "image_type ''a DRAGON in a city'' = Dragon"
    using image_type_first_match [of "''dragon''" "''a DRAGON in a city''"] kw m by blast
  have l: "image_type ''a quiet meadow'' = Landscape"
    using image_type_first_match [of "''dragon''" "''a quiet meadow''"] n
    unfolding list_all_iff by blast
  from kw m c d n l show ?thesis by blast
qed

section \<open>Colour selection\<close>

text \<open>
  C6, as the code has it. A prompt that contains "green" or "emerald" gets the green
  triple from both colour selections (\<open>main_color\<close> of \<open>create_ai_image\<close> and
  \<open>dragon_color\<close> of \<open>create_dragon_forest_image\<close>); without those, a prompt that
  contains "blue" or "ice" gets the blue triple from both, and one that contains
  "sapphire" gets it from \<open>main_color\<close>; a prompt that contains none of the colour
  names of a selection gets the default red triple from it.
\<close>

theorem colour_selection:
  "(mentions prompt ''green'' \<or> mentions prompt ''emerald'' \<longrightarrow>
      main_color prompt = (30, 150, 30) \<and> dragon_color prompt = (30, 150, 30)) \<and>
   (\<not> mentions prompt ''green'' \<and> \<not> mentions prompt ''emerald'' \<and>
      (mentions prompt ''blue'' \<or> mentions prompt ''ice'') \<longrightarrow>
      main_color prompt = (30, 30, 180) \<and> dragon_color prompt = (30, 30, 180)) \<and>
   (\<not> mentions prompt ''green'' \<and> \<not> mentions prompt ''emerald'' \<and>
      mentions prompt ''sapphire'' \<longrightarrow> main_color prompt = (30, 30, 180)) \<and>
   ((\<forall>k\<in>set main_color_names. \<not> mentions prompt k) \<longrightarrow>
      main_color prompt = (180, 30, 30)) \<and>
   ((\<forall>k\<in>set dragon_color_names. \<not> mentions prompt k) \<longrightarrow>
      dragon_color prompt = (180, 30, 30))"
  unfolding mentions_iff
  by (auto simp add: main_color_def dragon_color_def main_color_names_def
      dragon_color_names_def Let_def)

theorem colour_selection_witness:
  "mentions ''an EMERALD wyvern'' ''emerald'' \<and>
   main_color ''an EMERALD wyvern'' = (30, 150, 30) \<and>
   dragon_color ''an EMERALD wyvern'' = (30, 150, 30) \<and>
   \<not> mentions ''a blue ice dragon breathing fire'' ''green'' \<and>
   \<not> mentions ''a blue ice dragon breathing fire'' ''emerald'' \<and>
   mentions ''a blue ice dragon breathing fire'' ''blue'' \<and>
   main_color ''a blue ice dragon breathing fire'' = (30, 30, 180) \<and>
   dragon_color ''a blue ice dragon breathing fire'' = (30, 30, 180) \<and>
   \<not> mentions ''a sapphire robot'' ''green'' \<and> \<not> mentions ''a sapphire robot'' ''emerald'' \<and>
   mentions ''a sapphire robot'' ''sapphire'' \<and>
   main_color ''a sapphire robot'' = (30, 30, 180) \<and>
   list_all (\<lambda>k. \<not> mentions ''a quiet meadow'' k) main_color_names \<and>
   main_color ''a quiet meadow'' = (180, 30, 30) \<and>
   list_all (\<lambda>k. \<not> mentions ''a quiet meadow'' k) dragon_color_names \<and>
   dragon_color ''a quiet meadow'' = (180, 30, 30)"
proof -
  have g: "mentions ''an EMERALD wyvern'' ''emerald''"
    by (simp add: str_eval)
  have b: "\<not> mentions ''a blue ice dragon breathing fire'' ''green''"
    "\<not> mentions ''a blue ice dragon breathing fire'' ''emerald''"
    "mentions ''a blue ice dragon breathing fire'' ''blue''"
    by (simp_all add: str_eval)
  have s: "\<not> mentions ''a sapphire robot'' ''green''"
    "\<not> mentions ''a sapphire robot'' ''emerald''"
    "mentions ''a sapphire robot'' ''sapphire''"
    by (simp_all add: str_eval)
  have m: "list_all (\<lambda>k. \<not> mentions ''a quiet meadow'' k) main_color_names"
    by (simp add: str_eval main_color_names_def)
  have d: "list_all (\<lambda>k. \<not> mentions ''a quiet meadow'' k) dragon_color_names"
    by (simp add: str_eval dragon_color_names_def)
  note t = colour_selection
  have "main_color ''an EMERALD wyvern'' = (30, 150, 30) \<and>
        dragon_color ''an EMERALD wyvern'' = (30, 150, 30)"
    using t [of "''an EMERALD wyvern''"] g by blast
  moreover have "main_color ''a blue ice dragon breathing fire'' = (30, 30, 180) \<and>
        dragon_color ''a blue ice dragon breathing fire'' = (30, 30, 180)"
    using t [of "''a blue ice dragon breathing fire''"] b by blast
  moreover have "main_color ''a sapphire robot'' = (30, 30, 180)"
    using t [of "''a sapphire robot''"] s by blast
  moreover have "main_color ''a quiet meadow'' = (180, 30, 30)"
    using t [of "''a quiet meadow''"] m unfolding list_all_iff by blast
  moreover have "dragon_color ''a quiet meadow'' = (180, 30, 30)"
    using t [of "''a quiet meadow''"] d unfolding list_all_iff by blast
  ultimately show ?thesis
    using g b s m d by blast
qed

lemma sapphire_expansion:
  "generate ''a sapphire wyvern'' =
     ''a sapphire wyvern, with highly detailed textures, dramatic lighting, '' @
     ''cinematic composition, photo-realistic quality''"
  by (simp add: generate_def enhancements_def combined_keywords_def finish_expansion_def
      str_eval)

text \<open>
  C6 as stated fails in \<open>create_dragon_forest_image\<close>: its table has no entry for
  "sapphire", so a sapphire prompt with no other colour name keeps the default red. For
  the request "a sapphire wyvern", \<open>execute\<close> passes the renderer the expanded prompt,
  which still has "sapphire" and none of the colour names of the table.
\<close>

theorem sapphire_counterexample:
  "mentions (generate ''a sapphire wyvern'') ''sapphire'' \<and>
   \<not> mentions (generate ''a sapphire wyvern'') ''green'' \<and>
   \<not> mentions (generate ''a sapphire wyvern'') ''emerald'' \<and>
   dragon_color (generate ''a sapphire wyvern'') = (180, 30, 30) \<and>
   dragon_color (generate ''a sapphire wyvern'') \<noteq> (30, 30, 180) \<and>
   main_color ''a sapphire wyvern'' = (30, 30, 180) \<and>
   dragon_color ''a sapphire dragon'' = (180, 30, 30)"
  unfolding sapphire_expansion
  by (simp add: str_eval main_color_def dragon_color_def)

section \<open>The mesh payload is a constant cube\<close>

lemma cube_obj_lines:
  "split_on nl cube_obj_text =
     ''# Simple cube OBJ file'' # map vertex_line cube_vertices @ map face_line cube_faces"
  by (simp add: cube_obj_text_def nl_def cube_vertices_def cube_faces_def vertex_line_def
      face_line_def show_coord_def char_of_def bit_Suc_0_iff)

lemma obj_data_text: "obj_data = nl # cube_obj_text @ [nl]"
  by (simp add: obj_data_def cube_obj_text_def)

lemma cube_faces_ok: "list_all (cube_face 2) cube_faces"
  by (simp add: cube_faces_def cube_face_def in_plane_def vertex_def cube_vertices_def
      dist2_def)

text \<open>
  C5, as the code has it. The mesh payload of each generator is a constant: whatever
  the input, \<open>generate_image_to_3d\<close> returns \<open>obj_data\<close>, which is the text written by
  test\_app.py between a leading and a trailing newline. That text is the comment line
  \<open># Simple cube OBJ file\<close>, then the 8 vertex lines of the corners
  \<open>(\<plusminus>1, \<plusminus>1, \<plusminus>1)\<close> and the 6 face lines, each face a quadrilateral of
  the axis-aligned cube of edge length 2, indexed from 1.
\<close>

theorem mesh_payload_constant_cube:
  "generate_image_to_3d stub image_data uid = generate_image_to_3d stub' image_data' uid' \<and>
   generate_image_to_3d stub image_data uid = Some (nl # cube_obj_text @ [nl]) \<and>
   split_on nl cube_obj_text =
     ''# Simple cube OBJ file'' # map vertex_line cube_vertices @ map face_line cube_faces \<and>
   length cube_vertices = 8 \<and> distinct cube_vertices \<and>
   set cube_vertices = {-1, 1} \<times> {-1, 1} \<times> {-1, 1} \<and>
   length cube_faces = 6 \<and> distinct (map set cube_faces) \<and>
   list_all (cube_face 2) cube_faces"
proof -
  have "set cube_vertices = {-1, 1} \<times> {-1, 1} \<times> {-1, 1}"
    by (auto simp add: cube_vertices_def)
  moreover have "distinct (map set cube_faces)"
  proof -
    have "distinct (map (\<lambda>f. (1 \<in> set f, 2 \<in> set f, 3 \<in> set f, 5 \<in> set f)) cube_faces)"
      by (simp add: cube_faces_def)
    then show ?thesis
      by (simp add: distinct_map inj_on_def)
  qed
  moreover have "length cube_vertices = 8 \<and> distinct cube_vertices \<and> length cube_faces = 6"
    by (simp add: cube_vertices_def cube_faces_def)
  ultimately show ?thesis
    using cube_obj_lines cube_faces_ok
    by (simp add: generate_image_to_3d_def obj_data_text)
qed

theorem mesh_payload_constant_cube_witness:
  "generate_image_to_3d (0::nat) ''png bytes'' ''super-user'' = Some obj_data \<and>
   length (split_on nl cube_obj_text) = 15 \<and>
   cube_face 2 [1, 3, 7, 5]"
  using mesh_payload_constant_cube [of "0::nat" "''png bytes''" "''super-user''"
      "0::nat" "''png bytes''" "''super-user''"]
  by (simp add: obj_data_text cube_faces_def cube_vertices_def)

text \<open>
  C5 as stated fails: the payload has a comment line before the vertex lines (15 lines,
  not 14), the two generators do not emit the same bytes, and the cube is not a unit
  cube: the edge from vertex 1 to vertex 2 has length 2 (squared length 4, not 1).
\<close>

theorem mesh_payload_counterexample:
  "hd (split_on nl cube_obj_text) = ''# Simple cube OBJ file'' \<and>
   length (split_on nl cube_obj_text) = 15 \<and>
   obj_data \<noteq> cube_obj_text \<and>
   dist2 (vertex 1) (vertex 2) = 4 \<and>
   \<not> cube_face 1 [1, 3, 7, 5]"
proof -
  have "length obj_data \<noteq> length cube_obj_text"
    by (simp add: obj_data_text)
  then have "obj_data \<noteq> cube_obj_text"
    by auto
  moreover have "dist2 (vertex 1) (vertex 2) = 4 \<and> \<not> cube_face 1 [1, 3, 7, 5]"
    by (simp add: cube_face_def in_plane_def vertex_def cube_vertices_def dist2_def)
  ultimately show ?thesis
    by (simp add: cube_obj_lines cube_vertices_def cube_faces_def)
qed

section \<open>Facts about the renderers\<close>

lemma for_each_all:
  assumes "\<And>i g. list_all P (fst (body i g))"
  shows "list_all P (fst (for_each body xs g))"
proof (induction xs arbitrary: g)
  case Nil
  show ?case by simp
next
  case (Cons i rest)
  show ?case
    using assms [of i g] Cons.IH [of "snd (body i g)"]
    by (simp add: split_beta)
qed

lemma skip_simps [simp]:
  "ints (skip n m g) = (\<lambda>k. ints g (n + k))"
  "floats (skip n m g) = (\<lambda>k. floats g (m + k))"
  "ints_taken (skip n m g) = ints_taken g + n"
  "floats_taken (skip n m g) = floats_taken g + m"
  by (simp_all add: skip_def)

lemma skip_0 [simp]: "skip 0 0 g = g"
  by (simp add: skip_def)


lemma for_each_keeps:
  assumes "\<And>i g. P (snd (body i g)) = P g"
  shows "P (snd (for_each body xs g)) = P g"
proof (induction xs arbitrary: g)
  case Nil
  show ?case by simp
next
  case (Cons i rest)
  show ?case
    using assms [of i g] Cons.IH [of "snd (body i g)"]
    by (simp add: split_beta)
qed

lemma for_each_floats:
  assumes "\<And>i g. floats (snd (body i g)) = floats g \<and> floats_taken (snd (body i g)) = floats_taken g"
  shows "floats (snd (for_each body xs g)) = floats g \<and>
         floats_taken (snd (for_each body xs g)) = floats_taken g"
  using for_each_keeps [of "\<lambda>g. (floats g, floats_taken g)" body xs g] assms
  by simp

lemma randint_floats [simp]:
  "floats (snd (randint g)) = floats g" "floats_taken (snd (randint g)) = floats_taken g"
  by (simp_all add: randint_def)

lemma randints_floats [simp]:
  "floats (snd (randints n g)) = floats g" "floats_taken (snd (randints n g)) = floats_taken g"
  by (simp_all add: randints_def)

lemma paints_Draw [simp]: "paints es (Draw s e fill args) \<longleftrightarrow> e \<in> set es"
  by (simp add: paints_def)









lemma dragon_forest_tree_all:
  "list_all (paints [TreeTrunk, TreeFoliage]) (fst (dragon_forest_tree prompt g))"
  unfolding dragon_forest_tree_def
  by (simp add: split_beta Let_def for_each_all)

lemma dragon_forest_tree_floats:
  "floats (snd (dragon_forest_tree prompt g)) = floats g \<and>
   floats_taken (snd (dragon_forest_tree prompt g)) = floats_taken g"
  unfolding dragon_forest_tree_def
  by (simp add: split_beta Let_def for_each_floats)

lemma dragon_forest_all:
  "list_all (paints [TreeTrunk, TreeFoliage]) (fst (dragon_forest prompt g))"
  unfolding dragon_forest_def by (rule for_each_all) (rule dragon_forest_tree_all)

lemma dragon_forest_floats:
  "floats (snd (dragon_forest prompt g)) = floats g \<and>
   floats_taken (snd (dragon_forest prompt g)) = floats_taken g"
  unfolding dragon_forest_def by (rule for_each_floats) (rule dragon_forest_tree_floats)








lemma flame_scale_values:
  "flame_scale 0 = 1"
  "flame_scale 1 = 3602879701896397 / 4503599627370496"
  "flame_scale 2 = 5404319552844595 / 9007199254740992"
  "flame_scale 3 = 900719925474099 / 2251799813685248"
  by code_simp+

lemma flame_layers_unfold:
  "flame_layers ys =
     [FlameLayer 0 (255, 255, 200) 1 ys,
      FlameLayer 1 (255, 200, 50) (3602879701896397 / 4503599627370496) ys,
      FlameLayer 2 (255, 150, 0) (5404319552844595 / 9007199254740992) ys,
      FlameLayer 3 (255, 50, 0) (900719925474099 / 2251799813685248) ys]"
  using flame_scale_values
  by (simp add: flame_layers_def flame_colors_def enumerate_eq_zip upt_rec numeral_3_eq_3
      numeral_2_eq_2)

lemma fire_breath_cases:
  "fire_breath prompt g =
     (if mentions prompt ''fire'' then (flame_layers (map (floats g) [0..<20]), snd (flame g))
      else if floats g 0 > 1 / 2
        then (flame_layers (map (\<lambda>k. floats g (Suc k)) [0..<20]), snd (flame (snd (random_random g))))
      else ([], snd (random_random g)))"
  by (simp add: fire_breath_def flame_def uniforms_def random_random_def mentions_iff
      split_beta Let_def del: upt_Suc)

lemma has_flame_layers [simp]: "has_flame (flame_layers ys)"
  by (simp add: has_flame_def flame_layers_unfold)

lemma has_flame_Nil [simp]: "\<not> has_flame []"
  by (simp add: has_flame_def)

lemma has_flame_append [simp]: "has_flame (xs @ ys) \<longleftrightarrow> has_flame xs \<or> has_flame ys"
  by (simp add: has_flame_def)


lemma no_flame_sky [simp]: "\<not> has_flame (sky t)"
  by (simp add: has_flame_def sky_def list_ex_iff)

lemma no_flame_dragon [simp]: "\<not> has_flame (dragon c)"
  by (simp add: has_flame_def dragon_def wing_bones_def list_ex_iff)

lemma no_flame_caption [simp]: "\<not> has_flame (caption prompt)"
  by (simp add: has_flame_def caption_def)

lemma create_ai_image_unfold:
  "create_ai_image prompt g =
     (let g1 = snd (mountains g);
          g2 = snd (forest prompt g1);
          g3 = snd (magical_effects prompt g2);
          g4 = snd (fire_breath prompt g3)
      in (sky (image_type prompt) @ fst (mountains g) @ fst (forest prompt g1)
            @ fst (magical_effects prompt g2) @ dragon (main_color prompt)
            @ fst (fire_breath prompt g3) @ fst (additional_elements prompt g4)
            @ caption prompt,
          snd (additional_elements prompt g4)))"
  by (simp add: create_ai_image_def split_beta Let_def)

lemma forest_dragon_raises: "forest_dragon color = Inl TypeError"
  by (cases color) (simp add: forest_dragon_def draw_shape_def wing_color_def)

lemma create_dragon_forest_image_raises:
  "create_dragon_forest_image prompt g =
     (Inl TypeError,
      snd (magical_effects prompt (snd (dragon_forest prompt (snd (mountains g))))))"
  by (simp add: create_dragon_forest_image_def forest_dragon_raises split_beta Let_def)

lemma generate_text_to_image_none:
  "generate_text_to_image prompt w =
     (None, w\<lparr>gen := snd (magical_effects prompt
                          (snd (dragon_forest prompt (snd (mountains (gen w))))))\<rparr>)"
  by (simp add: generate_text_to_image_def create_dragon_forest_image_raises)


lemma list_all_True [simp]: "list_all (\<lambda>x. True) xs"
  by (induction xs) simp_all












section \<open>What a render reads from the generator\<close>































section \<open>The elements of the background\<close>









lemma sublist_has_flame: "sublist xs img \<Longrightarrow> has_flame xs \<Longrightarrow> has_flame img"
  using set_mono_sublist [of xs img] by (auto simp add: has_flame_def list_ex_iff)



section \<open>The flame\<close>

text \<open>
  C7. When the prompt contains "fire" in any letter case, \<open>create_ai_image\<close> of
  test\_app.py draws the flame whatever the state of the random generator: the image
  contains, in this order, the four flame polygons over the same twenty fire points, in
  the colours (255, 255, 200), (255, 200, 50), (255, 150, 0) and (255, 50, 0), each drawn
  towards the mean height of the flame by its scale: the floats 1, 0.8, 0.6 and
  0.3999999999999999. The renderer of main.py never comes to its flame: the fill of its
  left wing is a tuple of floats, the call raises \<open>TypeError\<close>, the renderer ends there
  for every prompt, and \<open>generate_text_to_image\<close> returns \<open>None\<close>.
\<close>

theorem flame_forced_by_fire:
  "mentions prompt ''fire'' \<longrightarrow>
     (\<exists>ys. length ys = 20 \<and>
        sublist [FlameLayer 0 (255, 255, 200) 1 ys,
                 FlameLayer 1 (255, 200, 50) (3602879701896397 / 4503599627370496) ys,
                 FlameLayer 2 (255, 150, 0) (5404319552844595 / 9007199254740992) ys,
                 FlameLayer 3 (255, 50, 0) (900719925474099 / 2251799813685248) ys]
          (fst (create_ai_image prompt g))) \<and>
     fst (create_dragon_forest_image prompt g) = Inl TypeError \<and>
     fst (generate_text_to_image prompt w) = None"
proof (intro impI conjI)
  assume fire: "mentions prompt ''fire''"
  define g3 where "g3 = snd (magical_effects prompt (snd (forest prompt (snd (mountains g)))))"
  define ys where "ys = map (floats g3) [0..<20]"
  have "fst (fire_breath prompt g3) = flame_layers ys"
    using fire by (simp add: fire_breath_cases ys_def)
  then have "\<exists>pre post. fst (create_ai_image prompt g) = pre @ flame_layers ys @ post"
    unfolding create_ai_image_unfold Let_def g3_def fst_conv
    by (metis append.assoc)
  then have "sublist (flame_layers ys) (fst (create_ai_image prompt g))"
    unfolding sublist_def by blast
  moreover have "length ys = 20"
    by (simp add: ys_def)
  ultimately show "\<exists>ys. length ys = 20 \<and>
        sublist [FlameLayer 0 (255, 255, 200) 1 ys,
                 FlameLayer 1 (255, 200, 50) (3602879701896397 / 4503599627370496) ys,
                 FlameLayer 2 (255, 150, 0) (5404319552844595 / 9007199254740992) ys,
                 FlameLayer 3 (255, 50, 0) (900719925474099 / 2251799813685248) ys]
          (fst (create_ai_image prompt g))"
    unfolding flame_layers_unfold by blast
next
  show "fst (create_dragon_forest_image prompt g) = Inl TypeError"
    by (simp add: create_dragon_forest_image_raises)
next
  show "fst (generate_text_to_image prompt w) = None"
    by (simp add: generate_text_to_image_none)
qed

text \<open>
  The witness renders a prompt with "FIRE" from a generator state whose float outcomes
  are all 0, so that no random draw exceeds 0.5.
\<close>

theorem flame_forced_by_fire_witness:
  "mentions ''a blue ice dragon breathing FIRE'' ''fire'' \<and>
   has_flame (fst (create_ai_image ''a blue ice dragon breathing FIRE''
                (sample_rng\<lparr>floats := (\<lambda>k. 0)\<rparr>))) \<and>
   fst (create_dragon_forest_image ''a blue ice dragon breathing FIRE''
          (forest_sample_rng\<lparr>floats := (\<lambda>k. 0)\<rparr>)) = Inl TypeError \<and>
   fst (generate_text_to_image ''a blue ice dragon breathing FIRE'' sample_world) = None"
proof -
  have m: "mentions ''a blue ice dragon breathing FIRE'' ''fire''"
    by (simp add: str_eval)
  have f: "has_flame [FlameLayer 0 (255, 255, 200) 1 ys,
                 FlameLayer 1 (255, 200, 50) (3602879701896397 / 4503599627370496) ys,
                 FlameLayer 2 (255, 150, 0) (5404319552844595 / 9007199254740992) ys,
                 FlameLayer 3 (255, 50, 0) (900719925474099 / 2251799813685248) ys]"
    for ys
    by (simp add: has_flame_def)
  note t = flame_forced_by_fire [of "''a blue ice dragon breathing FIRE''"]
  have "has_flame (fst (create_ai_image ''a blue ice dragon breathing FIRE''
                (sample_rng\<lparr>floats := (\<lambda>k. 0)\<rparr>)))"
    using t [of "sample_rng\<lparr>floats := (\<lambda>k. 0)\<rparr>"] m f sublist_has_flame
    by blast
  moreover have "fst (create_dragon_forest_image ''a blue ice dragon breathing FIRE''
          (forest_sample_rng\<lparr>floats := (\<lambda>k. 0)\<rparr>)) = Inl TypeError"
    using t [of "forest_sample_rng\<lparr>floats := (\<lambda>k. 0)\<rparr>"] m
    by blast
  moreover have "fst (generate_text_to_image ''a blue ice dragon breathing FIRE'' sample_world)
      = None"
    using t [of sample_rng sample_world] m
    by blast
  ultimately show ?thesis
    using m by blast
qed

section \<open>A landscape is rendered with the dragon\<close>




section \<open>Rendering and the random generator\<close>




section \<open>Facts about the memory\<close>

declare digits_of.simps [simp del]

declare tokens.simps [simp del]

lemma tokens_space: "is_space c \<Longrightarrow> tokens (c # s) = tokens s"
  by (simp add: tokens.simps [of "c # s"] tokens.simps [of s])

lemma tokens_Nil: "tokens [] = []"
  by (simp add: tokens.simps)

lemma tokens_word:
  "\<not> is_space c \<Longrightarrow>
     tokens (c # s) = (c # takeWhile (\<lambda>c. \<not> is_space c) s) # tokens (dropWhile (\<lambda>c. \<not> is_space c) s)"
  by (simp add: tokens.simps [of "c # s"])

lemma words_from_tokens:
  "words_from w s =
     (if w = [] then tokens s
      else (w @ takeWhile (\<lambda>c. \<not> is_space c) s) # tokens (dropWhile (\<lambda>c. \<not> is_space c) s))"
proof (induction s arbitrary: w)
  case Nil
  show ?case by (simp add: tokens_Nil)
next
  case (Cons c s)
  show ?case
  proof (cases "is_space c")
    case True
    then show ?thesis
      by (simp add: Cons.IH [of "[]"] tokens_space)
  next
    case False
    then show ?thesis
      by (simp add: Cons.IH [of "w @ [c]"] tokens_word)
  qed
qed

lemma split_ws_tokens: "split_ws s = tokens s"
  by (simp add: split_ws_def words_from_tokens)

lemma comprehension_filter:
  "concat (map (\<lambda>x. if P x then [f x] else []) xs) = map f (filter P xs)"
  by (induction xs) simp_all

lemma source_tags: "[lower word. word \<leftarrow> split_ws prompt, length word > 3] = spec_tags prompt"
  by (simp add: spec_tags_def split_ws_tokens comprehension_filter)

lemma store_result:
  "store prompt expanded_prompt image_path model_path tags w =
     Inr (w\<lparr>times := (\<lambda>k. times w (Suc k)), nows := (\<lambda>k. nows w (Suc k)),
            short_term := (short_term w)(py_int (times w 0) \<mapsto>
              \<lparr>mem_timestamp = nows w 0, mem_prompt = prompt,
               mem_expanded_prompt = expanded_prompt, mem_image_path = image_path,
               mem_model_path = model_path, mem_tags = tags\<rparr>),
            rows := (if db_insert_ok w
                     then rows w @ [(Suc (fold max (map fst (rows w)) 0),
                       \<lparr>mem_timestamp = nows w 0, mem_prompt = prompt,
                        mem_expanded_prompt = expanded_prompt, mem_image_path = image_path,
                        mem_model_path = model_path, mem_tags = tags\<rparr>)]
                     else rows w)\<rparr>)"
  by (simp add: store_def db_insert_def now_isoformat_def time_time_def Let_def)

lemma chroma_store_result:
  "chroma_store prompt expanded_prompt image_path model_path tags w =
     Inr (w\<lparr>times := (\<lambda>k. times w (Suc (Suc k))),
            collection :=
              (if chroma_ok w \<and> py_int (times w 0) \<notin> set (map ce_id (collection w))
               then collection w @
                 [\<lparr>ce_id = py_int (times w 0),
                   ce_document = prompt @ '' '' @ expanded_prompt @ '' '' @ join_with '' '' tags,
                   ce_timestamp = times w 1, ce_prompt = prompt,
                   ce_expanded_prompt = expanded_prompt, ce_image_path = image_path,
                   ce_model_path = model_path, ce_tags = tags\<rparr>]
               else collection w)\<rparr>)"
  by (simp add: chroma_store_def time_time_def Let_def)

text \<open>
  What holds of both \<open>get_recent\<close>: the result is in descending order of timestamp
  and, for a limit that is not negative, no longer than the limit. After a \<open>store\<close>
  whose INSERT goes through, with a timestamp later than every stored one,
  \<open>MemoryManager.get_recent(1)\<close> returns the creation just stored.
\<close>

lemma sorted_rev_take:
  assumes "sorted (rev ks)"
  shows "sorted (rev (take n ks))"
proof -
  have "rev (take n ks) = drop (length ks - n) (rev ks)"
    by (simp add: rev_take)
  then show ?thesis
    using assms by (simp add: sorted_wrt_drop)
qed

lemma chroma_get_recent_bounded: "length (chroma_get_recent limit w) \<le> limit"
  by (simp add: chroma_get_recent_def Let_def)

lemma chroma_get_recent_descending:
  "sorted (rev (map ce_timestamp (chroma_get_recent limit w)))"
proof -
  let ?xs = "collection_get limit (collection w)"
  have "sorted (rev (map ce_timestamp (sorted_reverse ce_timestamp ?xs)))"
    by (simp add: sorted_reverse_def rev_map)
  then have "sorted (rev (take limit (map ce_timestamp (sorted_reverse ce_timestamp ?xs))))"
    by (rule sorted_rev_take)
  then have "sorted (rev (map ce_timestamp (take limit (sorted_reverse ce_timestamp ?xs))))"
    by (simp only: take_map)
  then show ?thesis
    by (simp add: chroma_get_recent_def Let_def)
qed

lemma get_recent_bounded: "0 \<le> limit \<Longrightarrow> length (get_recent limit w) \<le> nat limit"
  by (simp add: get_recent_def sql_limit_def)

lemma get_recent_descending:
  "sorted (rev (map (\<lambda>r. mem_timestamp (snd r)) (get_recent limit w)))"
proof -
  let ?f = "\<lambda>r. mem_timestamp (snd r)"
  let ?rs = "order_by_timestamp_desc (rows w)"
  have a: "sorted (rev (map ?f ?rs))"
    by (simp add: order_by_timestamp_desc_def rev_map)
  then have "sorted (rev (take (nat limit) (map ?f ?rs)))"
    by (rule sorted_rev_take)
  then have "sorted (rev (map ?f (take (nat limit) ?rs)))"
    by (simp only: take_map)
  with a show ?thesis
    by (simp add: get_recent_def sql_limit_def)
qed

lemma insort_key_greatest:
  "\<forall>y\<in>set xs. f y < f a \<Longrightarrow> insort_key f a xs = xs @ [a]"
  by (induction xs) auto

lemma store_then_get_recent:
  assumes "db_insert_ok w" and "db_select_ok w"
    and "\<forall>r\<in>set (rows w). mem_timestamp (snd r) < nows w 0"
    and "store prompt expanded_prompt image_path model_path tags w = Inr w'"
  shows "map snd (get_recent 1 w') =
     [\<lparr>mem_timestamp = nows w 0, mem_prompt = prompt, mem_expanded_prompt = expanded_prompt,
       mem_image_path = image_path, mem_model_path = model_path, mem_tags = tags\<rparr>]"
proof -
  have "w' = w\<lparr>times := (\<lambda>k. times w (Suc k)), nows := (\<lambda>k. nows w (Suc k)),
            short_term := (short_term w)(py_int (times w 0) \<mapsto>
              \<lparr>mem_timestamp = nows w 0, mem_prompt = prompt,
               mem_expanded_prompt = expanded_prompt, mem_image_path = image_path,
               mem_model_path = model_path, mem_tags = tags\<rparr>),
            rows := rows w @ [(Suc (fold max (map fst (rows w)) 0),
                       \<lparr>mem_timestamp = nows w 0, mem_prompt = prompt,
                        mem_expanded_prompt = expanded_prompt, mem_image_path = image_path,
                        mem_model_path = model_path, mem_tags = tags\<rparr>)]\<rparr>"
    using assms(1,4) by (simp add: store_result)
  moreover have "insort_key (\<lambda>r. mem_timestamp (snd r)) a
        (sort_key (\<lambda>r. mem_timestamp (snd r)) (rev (rows w)))
      = sort_key (\<lambda>r. mem_timestamp (snd r)) (rev (rows w)) @ [a]"
    if "mem_timestamp (snd a) = nows w 0" for a
    using assms(3) that by (intro insort_key_greatest) simp
  ultimately show ?thesis
    using assms(2)
    by (simp add: get_recent_def sql_limit_def order_by_timestamp_desc_def)
qed

section \<open>The most recent creation\<close>

text \<open>
  C4 on the failing input. Two creations are stored in an empty ChromaDB collection,
  ten seconds apart; \<open>get_recent(1)\<close> then returns the first one, not the one just
  stored, because \<open>collection.get(limit=1)\<close> has cut the collection to its first entry
  before the entries are sorted by timestamp. With the limit 2 both are returned, the
  later one first.
\<close>

theorem chroma_get_recent_misses_latest:
  "\<exists>w1 w2.
     chroma_store ''first dragon'' ''first dragon'' (''/app/output'', ''image_1700000000.png'')
       (''/app/output'', ''model_1700000000.obj'') [''first'', ''dragon''] slow_world = Inr w1 \<and>
     chroma_store ''second dragon'' ''second dragon'' (''/app/output'', ''image_1700000020.png'')
       (''/app/output'', ''model_1700000020.obj'') [''second'', ''dragon''] w1 = Inr w2 \<and>
     map ce_prompt (collection w2) = [''first dragon'', ''second dragon''] \<and>
     map ce_timestamp (collection w2) = [1700000010, 1700000030] \<and>
     map ce_prompt (chroma_get_recent 1 w2) = [''first dragon''] \<and>
     map ce_prompt (chroma_get_recent 2 w2) = [''second dragon'', ''first dragon'']"
  by (simp add: chroma_store_result slow_world_def sample_world_def py_int_def
      chroma_get_recent_def collection_get_def sorted_reverse_def)

section \<open>Facts about the pipeline and the handlers\<close>

lemma prompt_tags_spec: "prompt_tags prompt = spec_tags prompt"
  by (simp add: prompt_tags_def source_tags)

lemma execute_falsy:
  "falsy (request_prompt request_data) \<Longrightarrow>
     execute like request_data w =
       (Inr (Message ''Please provide a prompt to generate content.''), w)"
  by (simp add: execute_def)

lemma execute_string:
  "request_prompt request_data = JStr user_prompt \<Longrightarrow> user_prompt \<noteq> [] \<Longrightarrow>
     execute like request_data w =
       (Inr (Message ''Failed to generate image from prompt.''),
        w\<lparr>gen := snd (magical_effects (expand_prompt like user_prompt w)
                 (snd (dragon_forest (expand_prompt like user_prompt w)
                    (snd (mountains (gen w))))))\<rparr>)"
  by (simp add: execute_def generate_text_to_image_none Let_def)

lemma execute_not_a_string:
  "\<not> falsy (request_prompt request_data) \<Longrightarrow> \<forall>s. request_prompt request_data \<noteq> JStr s \<Longrightarrow>
     execute like request_data w = (Inl AttributeError, w)"
  by (cases "request_prompt request_data") (simp_all add: execute_def)

lemma execute_keeps:
  "files (snd (execute like request_data w)) = files w"
  "short_term (snd (execute like request_data w)) = short_term w"
  "rows (snd (execute like request_data w)) = rows w"
  "collection (snd (execute like request_data w)) = collection w"
proof -
  consider "falsy (request_prompt request_data)"
    | s where "request_prompt request_data = JStr s" "s \<noteq> []"
    | "\<not> falsy (request_prompt request_data)" "\<forall>s. request_prompt request_data \<noteq> JStr s"
    by (cases "request_prompt request_data") auto
  then have "files (snd (execute like request_data w)) = files w \<and>
     short_term (snd (execute like request_data w)) = short_term w \<and>
     rows (snd (execute like request_data w)) = rows w \<and>
     collection (snd (execute like request_data w)) = collection w"
  proof cases
    case 1
    then show ?thesis
      by (simp add: execute_falsy)
  next
    case 2
    then show ?thesis
      by (simp add: execute_string)
  next
    case 3
    then show ?thesis
      by (simp add: execute_not_a_string)
  qed
  then show "files (snd (execute like request_data w)) = files w"
    and "short_term (snd (execute like request_data w)) = short_term w"
    and "rows (snd (execute like request_data w)) = rows w"
    and "collection (snd (execute like request_data w)) = collection w"
    by simp_all
qed

lemma dict_has_prompt:
  "map_of kvs ''prompt'' = Some v \<Longrightarrow>
     \<not> falsy (JDict kvs) \<and> contains_prompt (JDict kvs) = Inr True \<and>
     subscript_prompt (JDict kvs) = Inr v \<and> request_prompt (JDict kvs) = v"
  using map_of_SomeD [of kvs "''prompt''" v]
  by (force simp add: request_prompt_def image_iff)






lemma test_generate_success:
  assumes "map_of kvs ''prompt'' = Some (JStr prompt)"
  shows "\<exists>w'.
     test_generate (Json (JDict kvs)) w =
       ((200, Result (CreatedImage (''Created image from prompt: '' @ prompt)
          \<lparr>image_file = ''/output/'' @ ''image_'' @ str_int (py_int (times w 0)) @ ''.png'',
           model_file = ''/output/'' @ ''model_'' @ str_int (py_int (times w 0)) @ ''.obj'',
           viewer_file = ''/output/'' @ ''view_'' @ str_int (py_int (times w 0)) @ ''.html''\<rparr>)),
        w') \<and>
     files w' = (files w)
       ((output_dir w, ''image_'' @ str_int (py_int (times w 0)) @ ''.png'') \<mapsto>
          PngImage (fst (create_ai_image prompt (gen w))),
        (output_dir w, ''model_'' @ str_int (py_int (times w 0)) @ ''.obj'') \<mapsto>
          ObjModel cube_obj_text,
        (output_dir w, ''view_'' @ str_int (py_int (times w 0)) @ ''.html'') \<mapsto>
          ImageViewerPage (py_int (times w 0)) prompt (image_type_label prompt)) \<and>
     collection w' =
       (if chroma_ok w \<and> py_int (times w 1) \<notin> set (map ce_id (collection w))
        then collection w @
          [\<lparr>ce_id = py_int (times w 1),
            ce_document = prompt @ '' '' @ prompt @ '' '' @ join_with '' '' (spec_tags prompt),
            ce_timestamp = times w 2, ce_prompt = prompt, ce_expanded_prompt = prompt,
            ce_image_path = (output_dir w, ''image_'' @ str_int (py_int (times w 0)) @ ''.png''),
            ce_model_path = (output_dir w, ''model_'' @ str_int (py_int (times w 0)) @ ''.obj''),
            ce_tags = spec_tags prompt\<rparr>]
        else collection w) \<and>
     rows w' = rows w"
  using dict_has_prompt [OF assms]
  by (simp add: test_generate_def request_json_def chroma_store_result time_time_def
      prompt_tags_spec Let_def split_beta numeral_2_eq_2)

lemma test_generate_keeps_collection:
  assumes "test_generate r w = ((status, body), w')" and "status \<noteq> 200"
  shows "collection w' = collection w"
proof (cases "request_json r")
  case (Inl e)
  then show ?thesis
    using assms by (simp add: test_generate_def)
next
  case (Inr data)
  show ?thesis
  proof (cases "falsy data")
    case True
    then show ?thesis
      using assms Inr by (simp add: test_generate_def)
  next
    case f: False
    show ?thesis
    proof (cases "contains_prompt data")
      case (Inl e)
      then show ?thesis
        using assms Inr f by (simp add: test_generate_def)
    next
      case c: (Inr b)
      show ?thesis
      proof (cases b)
        case False
        then show ?thesis
          using assms Inr f c by (simp add: test_generate_def)
      next
        case True
        show ?thesis
        proof (cases "subscript_prompt data")
          case (Inl e)
          then show ?thesis
            using assms Inr f c True by (simp add: test_generate_def)
        next
          case s: (Inr v)
          show ?thesis
            using assms Inr f c True s
            by (cases v) (simp_all add: test_generate_def chroma_store_result Let_def split_beta)
        qed
      qed
    qed
  qed
qed

lemma floor_rat_numeral: "\<lfloor>(numeral a :: rat) / numeral b\<rfloor> = numeral a div numeral b"
  using floor_divide_of_int_eq [of "numeral a" "numeral b", where ?'a = rat] by simp

lemma sample_clock:
  "py_int (times sample_world 0) = 1700000000" "py_int (times sample_world 1) = 1700000000"
  "py_int (times sample_world 2) = 1700000000"
  "str_int 1700000000 = ''1700000000''"
  "py_int (times sample_world (Suc 0)) = 1700000000"
  "py_int (times sample_world (Suc (Suc 0))) = 1700000000"
  by (simp_all add: sample_world_def py_int_def str_int_def digits_of.simps char_of_def
      bit_Suc_0_iff floor_rat_numeral)

section \<open>Tags of a stored creation\<close>

text \<open>
  C8. The tags both handlers compute for a prompt are exactly the tokens of the prompt
  that are longer than 3 characters, lower-cased, in order. \<open>generate\<close> of test\_app.py
  answers every request whose prompt is a string with status 200, and the entry it has
  then added to the collection carries the prompt and those tags; it adds one whenever
  ChromaDB takes it and the id is new, and a request it answers otherwise leaves the
  collection as it was. Step 5 of \<open>execute\<close>, the \<open>store\<close> of the prompt with these
  tags, puts them into the session memory and into the row it appends; as the renderer
  of main.py raises for every prompt, \<open>execute\<close> never comes to it and leaves the
  session memory and the table as they were.
\<close>

theorem stored_tags_follow_prompt:
  "prompt_tags prompt = spec_tags prompt \<and>
   (map_of kvs ''prompt'' = Some (JStr prompt) \<longrightarrow>
      (\<exists>body w'.
         test_generate (Json (JDict kvs)) w = ((200, body), w') \<and>
         (collection w' = collection w \<or>
          (\<exists>e. collection w' = collection w @ [e] \<and> ce_prompt e = prompt \<and>
               ce_tags e = spec_tags prompt)) \<and>
         (chroma_ok w \<and> py_int (times w 1) \<notin> set (map ce_id (collection w)) \<longrightarrow>
            collection w' \<noteq> collection w))) \<and>
   (test_generate r w = ((status, answer), w'') \<and> status \<noteq> 200 \<longrightarrow>
      collection w'' = collection w) \<and>
   (store prompt expanded_prompt image_path model_path (prompt_tags prompt) w = Inr w1 \<longrightarrow>
      (\<exists>m. short_term w1 (py_int (times w 0)) = Some m \<and> mem_prompt m = prompt \<and>
           mem_tags m = spec_tags prompt) \<and>
      (rows w1 = rows w \<or>
       (\<exists>row. rows w1 = rows w @ [row] \<and> mem_prompt (snd row) = prompt \<and>
            mem_tags (snd row) = spec_tags prompt))) \<and>
   short_term (snd (execute like request_data w)) = short_term w \<and>
   rows (snd (execute like request_data w)) = rows w"
proof (intro conjI impI)
  show "prompt_tags prompt = spec_tags prompt"
    by (rule prompt_tags_spec)
next
  assume a: "map_of kvs ''prompt'' = Some (JStr prompt)"
  obtain v where t: "test_generate (Json (JDict kvs)) w =
       ((200, Result (CreatedImage (''Created image from prompt: '' @ prompt)
          \<lparr>image_file = ''/output/'' @ ''image_'' @ str_int (py_int (times w 0)) @ ''.png'',
           model_file = ''/output/'' @ ''model_'' @ str_int (py_int (times w 0)) @ ''.obj'',
           viewer_file = ''/output/'' @ ''view_'' @ str_int (py_int (times w 0)) @ ''.html''\<rparr>)),
        v)"
    and c: "collection v =
       (if chroma_ok w \<and> py_int (times w 1) \<notin> set (map ce_id (collection w))
        then collection w @
          [\<lparr>ce_id = py_int (times w 1),
            ce_document = prompt @ '' '' @ prompt @ '' '' @ join_with '' '' (spec_tags prompt),
            ce_timestamp = times w 2, ce_prompt = prompt, ce_expanded_prompt = prompt,
            ce_image_path = (output_dir w, ''image_'' @ str_int (py_int (times w 0)) @ ''.png''),
            ce_model_path = (output_dir w, ''model_'' @ str_int (py_int (times w 0)) @ ''.obj''),
            ce_tags = spec_tags prompt\<rparr>]
        else collection w)"
    using test_generate_success [OF a, of w] by blast
  have 1: "collection v = collection w \<or>
          (\<exists>e. collection v = collection w @ [e] \<and> ce_prompt e = prompt \<and>
               ce_tags e = spec_tags prompt)"
    using c
    by (cases "chroma_ok w \<and> py_int (times w 1) \<notin> set (map ce_id (collection w))") simp_all
  have 2: "chroma_ok w \<and> py_int (times w 1) \<notin> set (map ce_id (collection w)) \<longrightarrow>
            collection v \<noteq> collection w"
    using c by simp
  from t 1 2 show "\<exists>body w'.
         test_generate (Json (JDict kvs)) w = ((200, body), w') \<and>
         (collection w' = collection w \<or>
          (\<exists>e. collection w' = collection w @ [e] \<and> ce_prompt e = prompt \<and>
               ce_tags e = spec_tags prompt)) \<and>
         (chroma_ok w \<and> py_int (times w 1) \<notin> set (map ce_id (collection w)) \<longrightarrow>
            collection w' \<noteq> collection w)"
    by blast
next
  assume "test_generate r w = ((status, answer), w'') \<and> status \<noteq> 200"
  then show "collection w'' = collection w"
    using test_generate_keeps_collection [of r w status answer w''] by blast
next
  assume s: "store prompt expanded_prompt image_path model_path (prompt_tags prompt) w = Inr w1"
  show "\<exists>m. short_term w1 (py_int (times w 0)) = Some m \<and> mem_prompt m = prompt \<and>
           mem_tags m = spec_tags prompt"
    using s by (auto simp add: store_result prompt_tags_spec)
  show "rows w1 = rows w \<or>
       (\<exists>row. rows w1 = rows w @ [row] \<and> mem_prompt (snd row) = prompt \<and>
            mem_tags (snd row) = spec_tags prompt)"
    using s by (cases "db_insert_ok w") (auto simp add: store_result prompt_tags_spec)
next
  show "short_term (snd (execute like request_data w)) = short_term w"
    by (rule execute_keeps)
next
  show "rows (snd (execute like request_data w)) = rows w"
    by (rule execute_keeps)
qed

lemma sample_tags: "spec_tags ''A Green DRAGON in the sky'' = [''green'', ''dragon'']"
  by (simp add: spec_tags_def tokens_word tokens_space tokens_Nil is_space_def str_eval)

theorem stored_tags_follow_prompt_witness:
  "prompt_tags ''A Green DRAGON in the sky'' = [''green'', ''dragon''] \<and>
   map_of [(''prompt'', JStr ''A Green DRAGON in the sky'')] ''prompt'' =
     Some (JStr ''A Green DRAGON in the sky'') \<and>
   chroma_ok sample_world \<and>
   (\<exists>body w'.
      test_generate (Json (JDict [(''prompt'', JStr ''A Green DRAGON in the sky'')])) sample_world =
        ((200, body), w') \<and>
      (\<exists>e. collection w' = [e] \<and> ce_tags e = [''green'', ''dragon''])) \<and>
   test_generate (Json (JDict [(''text'', JStr ''a dragon'')])) sample_world =
     ((400, MissingPrompt), sample_world) \<and>
   collection sample_world = [] \<and>
   (\<exists>w1 m.
      store ''A Green DRAGON in the sky'' ''an expanded prompt''
        (''/app/output'', ''image_1700000000.png'') (''/app/output'', ''model_1700000000.obj'')
        (prompt_tags ''A Green DRAGON in the sky'') sample_world = Inr w1 \<and>
      short_term w1 1700000000 = Some m \<and> mem_tags m = [''green'', ''dragon'']) \<and>
   short_term (snd (execute sample_like
       (JDict [(''prompt'', JStr ''A Green DRAGON in the sky'')]) sample_world)) = Map.empty"
proof -
  let ?p = "''A Green DRAGON in the sky''"
  let ?kvs = "[(''prompt'', JStr ?p)]"
  let ?r = "Json (JDict [(''text'', JStr ''a dragon'')])"
  let ?ip = "(''/app/output'', ''image_1700000000.png'')"
  let ?mp = "(''/app/output'', ''model_1700000000.obj'')"
  obtain w1 where s: "store ?p ''an expanded prompt'' ?ip ?mp (prompt_tags ?p) sample_world = Inr w1"
    by (simp add: store_result)
  have n: "test_generate ?r sample_world = ((400, MissingPrompt), sample_world)"
    by (simp add: test_generate_def request_json_def)
  note t = stored_tags_follow_prompt [where prompt = ?p and kvs = ?kvs and w = sample_world
      and r = ?r and status = 400 and answer = MissingPrompt and w'' = sample_world
      and expanded_prompt = "''an expanded prompt''" and image_path = ?ip and model_path = ?mp
      and ?w1.0 = w1 and like = sample_like and request_data = "JDict ?kvs"]
  have h: "map_of ?kvs ''prompt'' = Some (JStr ?p)" "chroma_ok sample_world"
    "collection sample_world = []" "short_term sample_world = Map.empty"
    "py_int (times sample_world 1) \<notin> set (map ce_id (collection sample_world))"
    by (simp_all add: sample_world_def)
  have 1: "prompt_tags ?p = [''green'', ''dragon'']"
    using t sample_tags by simp
  obtain body w' where g: "test_generate (Json (JDict ?kvs)) sample_world = ((200, body), w')"
    and c: "collection w' = collection sample_world \<or>
          (\<exists>e. collection w' = collection sample_world @ [e] \<and> ce_prompt e = ?p \<and>
               ce_tags e = spec_tags ?p)"
    and d: "collection w' \<noteq> collection sample_world"
    using t h by blast
  have 2: "\<exists>e. collection w' = [e] \<and> ce_tags e = [''green'', ''dragon'']"
    using c d h(3) sample_tags by auto
  obtain m where "short_term w1 (py_int (times sample_world 0)) = Some m"
    and "mem_tags m = spec_tags ?p"
    using t s by blast
  then have 3: "short_term w1 1700000000 = Some m \<and> mem_tags m = [''green'', ''dragon'']"
    by (simp add: sample_clock sample_tags)
  have 4: "short_term (snd (execute sample_like (JDict ?kvs) sample_world)) = Map.empty"
    using t h(4) by simp
  from 1 h 2 g n s 3 4 show ?thesis
    by blast
qed

section \<open>A missing prompt\<close>




section \<open>A failing INSERT\<close>



end
